theory Spec2Isabelle
  imports Complex_Main
begin

section \<open>The auction store\<close>

text \<open>
  The auction subsystem of the marketplace backend lives in
  \<^verbatim>\<open>src/auctions/auctions.service.ts\<close> (class \<^verbatim>\<open>AuctionsService\<close>); auctions are created by
  \<^verbatim>\<open>createListing\<close> in \<^verbatim>\<open>src/listings/listings.service.ts\<close>.  Every service method is a
  sequence of queries against three remote tables: \<^verbatim>\<open>auctions\<close>, \<^verbatim>\<open>bids\<close> and
  \<^verbatim>\<open>listings\<close>.  The tables are modelled as an explicit store that every operation takes
  and returns.

  Modelling conventions.
  \<^item> Money (a JavaScript \<^verbatim>\<open>number\<close>) is an exact rational: rounding of binary floating
    point is not modelled.
  \<^item> An instant is the integer number of milliseconds that \<^verbatim>\<open>Date.getTime()\<close> returns;
    the ISO strings of the tables are these instants.  The several \<^verbatim>\<open>new Date()\<close> calls
    of one invocation read one clock value, the parameter \<open>now\<close>.
  \<^item> \<^verbatim>\<open>uuidv4()\<close> is a parameter of the operation that calls it.
  \<^item> A query fails exactly when the table or the row it addresses is missing (the service
    itself expects a missing \<^verbatim>\<open>bids\<close> table: "Bids table not found, updating auction
    only"); failures of the transport to the remote store are not modelled.
  \<^item> The primary key \<^verbatim>\<open>id\<close> of \<^verbatim>\<open>auctions\<close> and \<^verbatim>\<open>listings\<close> rejects an insert whose id
    is present already.
  \<^item> The fields that \<^verbatim>\<open>enrichAuctionData\<close> computes for the response (time remaining and
    the like) are left out: an operation returns the stored row.
\<close>

type_synonym ident = string
type_synonym time = int
type_synonym money = rat

text \<open>
  The rows of the three tables.  An auction row has the columns of the \<^verbatim>\<open>Auction\<close> entity
  and the \<^verbatim>\<open>reserve_price\<close> of \<^verbatim>\<open>CreateAuctionDto\<close> and \<^verbatim>\<open>UpdateAuctionDto\<close>; its status is
  one of the strings \<^verbatim>\<open>'draft'\<close>, \<^verbatim>\<open>'active'\<close>, \<^verbatim>\<open>'ended'\<close>, \<^verbatim>\<open>'cancelled'\<close>, \<^verbatim>\<open>'completed'\<close>
  of \<^verbatim>\<open>UpdateAuctionDto\<close>, and \<^verbatim>\<open>current_bid\<close> may be null.  A bid row has the columns that
  \<^verbatim>\<open>placeBid\<close> inserts.  Of a listing row only the columns that the operations below read
  or write are kept; \<open>listing_kind\<close> is the column \<^verbatim>\<open>listing_type\<close>, \<open>listing_auction_end\<close> the
  column \<^verbatim>\<open>auction_end\<close> and \<open>listing_status\<close> the column \<^verbatim>\<open>status\<close> of \<^verbatim>\<open>listings\<close>.
\<close>

datatype auction_status = Draft | Active | Ended | Cancelled | Completed

datatype listing_type = AUCTION | FIXED_PRICE

record auction =
  listing_id :: ident
  auction_end :: time
  starting_price :: money
  current_bid :: "money option"
  bid_count :: int
  winning_bidder_id :: "ident option"
  status :: auction_status
  reserve_price :: "money option"
  created_at :: time
  updated_at :: time

record bid =
  bid_id :: ident
  auction_id :: ident
  bidder_id :: ident
  bid_amount :: money
  bid_currency :: string
  bid_time :: time
  is_winning :: bool

record listing =
  seller_id :: ident
  price_amount :: money
  listing_kind :: listing_type
  listing_auction_end :: "time option"
  listing_status :: string

text \<open>\<open>bids = None\<close> is a database without a \<^verbatim>\<open>bids\<close> table.\<close>

record store =
  auctions :: "(ident \<times> auction) list"
  bids :: "bid list option"
  listings :: "(ident \<times> listing) list"

text \<open>
  The exceptions of the service, one constructor for each message.  The numbers that a
  message prints with \<^verbatim>\<open>toFixed(2)\<close> are carried in cents.
  \<^item> \<open>AuctionNotFound\<close>: \<^verbatim>\<open>NotFoundException('Auction not found')\<close>
  \<^item> \<open>AuctionNotActive\<close>: \<^verbatim>\<open>'Auction is not active'\<close>
  \<^item> \<open>AuctionExpired\<close>: \<^verbatim>\<open>'Auction has ended'\<close>
  \<^item> \<open>SelfBidNotAllowed\<close>: \<^verbatim>\<open>'You cannot bid on your own auction'\<close>
  \<^item> \<open>BidNotHigher c\<close>: \<^verbatim>\<open>'Bid must be higher than current bid ($c)'\<close>
  \<^item> \<open>BidIncrementTooSmall m\<close>: \<^verbatim>\<open>'Bid must increase by at least $m'\<close>
  \<^item> \<open>FailedToPlaceBid\<close>: \<^verbatim>\<open>'Failed to place bid: ...'\<close>, thrown by the \<^verbatim>\<open>catch\<close> of
    \<^verbatim>\<open>placeBid\<close>
  \<^item> \<open>FailedToEndAuction\<close>: \<^verbatim>\<open>'Failed to end auction: ...'\<close>
  \<^item> \<open>OnlyActiveExtended\<close>: \<^verbatim>\<open>'Only active auctions can be extended'\<close>
  \<^item> \<open>ExtensionTooLong m\<close>: \<^verbatim>\<open>'Cannot extend auction by more than m minutes (24 hours)'\<close>
  \<^item> \<open>CannotCancelWithBids\<close>: \<^verbatim>\<open>'Cannot cancel auction with existing bids'\<close>
  \<^item> \<open>FailedToCancelAuction\<close>: \<^verbatim>\<open>'Failed to cancel auction: ...'\<close>
  \<^item> \<open>FailedToExtendAuction\<close>: \<^verbatim>\<open>'Failed to extend auction: ...'\<close>
  \<^item> \<open>FailedToCreateListing\<close>, \<open>AuctionEndRequired\<close>, \<open>FailedToCreateAuction\<close>: the three
    failures of \<^verbatim>\<open>createListing\<close>
  \<^item> \<open>ListingNotFound\<close>, \<open>NotAnAuction\<close>, \<open>OwnListing\<close>, \<open>BidNotAbovePrice p\<close>: the
    failures of \<^verbatim>\<open>placeBid\<close> of the listings module ("Listing not found", "This listing is
    not an auction", "You cannot bid on your own listing", "Bid amount must be higher than
    current price ($p)")
\<close>

datatype error =
    AuctionNotFound
  | AuctionNotActive
  | AuctionExpired
  | SelfBidNotAllowed
  | BidNotHigher int
  | BidIncrementTooSmall int
  | FailedToPlaceBid
  | FailedToEndAuction
  | OnlyActiveExtended
  | ExtensionTooLong int
  | CannotCancelWithBids
  | FailedToCancelAuction
  | FailedToExtendAuction
  | FailedToCreateListing
  | AuctionEndRequired
  | FailedToCreateAuction
  | ListingNotFound
  | NotAnAuction
  | OwnListing
  | BidNotAbovePrice money

text \<open>The two messages that reject an amount for being too low.\<close>

fun is_BidTooLow :: "error \<Rightarrow> bool" where
  "is_BidTooLow (BidNotHigher c) = True"
| "is_BidTooLow (BidIncrementTooSmall m) = True"
| "is_BidTooLow e = False"

subsection \<open>Queries\<close>

text \<open>\<^verbatim>\<open>.from('auctions').select(...).eq('id', id).single()\<close>\<close>

definition find_auction :: "store \<Rightarrow> ident \<Rightarrow> auction option" where
  "find_auction s auctionId = map_of (auctions s) auctionId"

text \<open>\<^verbatim>\<open>.from('auctions').update(...).eq('id', id)\<close>: every row with the id is rewritten.\<close>

definition update_auction :: "store \<Rightarrow> ident \<Rightarrow> (auction \<Rightarrow> auction) \<Rightarrow> store" where
  "update_auction s auctionId f =
     s\<lparr>auctions := map (\<lambda>(k, a). if k = auctionId then (k, f a) else (k, a)) (auctions s)\<rparr>"

text \<open>\<^verbatim>\<open>.from('listings').update(...).eq('id', id)\<close>\<close>

definition update_listing :: "store \<Rightarrow> ident \<Rightarrow> (listing \<Rightarrow> listing) \<Rightarrow> store" where
  "update_listing s listingId f =
     s\<lparr>listings := map (\<lambda>(k, l). if k = listingId then (k, f l) else (k, l)) (listings s)\<rparr>"

text \<open>\<^verbatim>\<open>.from('bids').insert(row).select().single()\<close>: the inserted row, or no row (and an
  error) when there is no \<^verbatim>\<open>bids\<close> table.\<close>

definition insert_bid :: "store \<Rightarrow> bid \<Rightarrow> bid option \<times> store" where
  "insert_bid s b =
     (case bids s of
        None \<Rightarrow> (None, s)
      | Some bs \<Rightarrow> (Some b, s\<lparr>bids := Some (bs @ [b])\<rparr>))"

text \<open>The rows of \<^verbatim>\<open>bids\<close> with \<^verbatim>\<open>auction_id = auctionId\<close>; none without the table.\<close>

definition bids_of :: "store \<Rightarrow> ident \<Rightarrow> bid list" where
  "bids_of s auctionId =
     (case bids s of
        None \<Rightarrow> []
      | Some bs \<Rightarrow> filter (\<lambda>b. auction_id b = auctionId) bs)"

text \<open>\<^verbatim>\<open>.order('bid_amount', { ascending: false }).limit(1).single()\<close>: a row of the largest
  amount, no row for an empty result.  Among rows of equal amount the database may return
  any; the model returns the first in table order.\<close>

fun highest :: "bid list \<Rightarrow> bid option" where
  "highest [] = None"
| "highest (b # bs) =
     (case highest bs of
        None \<Rightarrow> Some b
      | Some h \<Rightarrow> if bid_amount b < bid_amount h then Some h else Some b)"

text \<open>\<^verbatim>\<open>.from('bids').update({ is_winning: true }).eq('id', id)\<close>\<close>

definition mark_winning :: "store \<Rightarrow> ident \<Rightarrow> store" where
  "mark_winning s bidId =
     s\<lparr>bids := map_option (map (\<lambda>b. if bid_id b = bidId then b\<lparr>is_winning := True\<rparr> else b)) (bids s)\<rparr>"

subsection \<open>Creating an auction\<close>

text \<open>
  The part of \<^verbatim>\<open>createListing\<close> that writes the tables: the listing row, and for a listing
  of type auction the auction row, whose \<^verbatim>\<open>current_bid\<close> starts at the starting price.  When
  the auction row cannot be written the listing row is deleted again.  The upload of
  images is left out, and of \<^verbatim>\<open>CreateListingDto\<close> the record \<open>listing_data\<close> keeps the fields
  that these writes use.  The payload of the listing row has no \<^verbatim>\<open>auction_end\<close>: the end of
  the auction is stored in the auction row only.
\<close>

record listing_data =
  ld_seller_id :: ident
  ld_price_amount :: money
  ld_listing_type :: listing_type
  ld_auction_end :: "time option"

definition delete_listing :: "store \<Rightarrow> ident \<Rightarrow> store" where
  "delete_listing s listingId = s\<lparr>listings := filter (\<lambda>(k, l). k \<noteq> listingId) (listings s)\<rparr>"

definition createListing ::
  "store \<Rightarrow> listing_data \<Rightarrow> ident \<Rightarrow> ident \<Rightarrow> time \<Rightarrow> (error + listing) \<times> store" where
  "createListing s listingData listingId auctionId now =
     (if listingId \<in> fst ` set (listings s) then (Inl FailedToCreateListing, s)
      else
        let row = \<lparr>seller_id = ld_seller_id listingData,
                   price_amount = ld_price_amount listingData,
                   listing_kind = ld_listing_type listingData,
                   listing_auction_end = None,
                   listing_status = ''active''\<rparr>;
            s1 = s\<lparr>listings := listings s @ [(listingId, row)]\<rparr>
        in if ld_listing_type listingData = AUCTION then
             (case ld_auction_end listingData of
                None \<Rightarrow> (Inl AuctionEndRequired, delete_listing s1 listingId)
              | Some e \<Rightarrow>
                  if auctionId \<in> fst ` set (auctions s1)
                  then (Inl FailedToCreateAuction, delete_listing s1 listingId)
                  else (Inr row,
                        s1\<lparr>auctions := auctions s1 @
                          [(auctionId,
                            \<lparr>listing_id = listingId,
                             auction_end = e,
                             starting_price = ld_price_amount listingData,
                             current_bid = Some (ld_price_amount listingData),
                             bid_count = 0,
                             winning_bidder_id = None,
                             status = Active,
                             reserve_price = None,
                             created_at = now,
                             updated_at = now\<rparr>)]\<rparr>))
           else (Inr row, s1))"

subsection \<open>Placing a bid\<close>

text \<open>\<^verbatim>\<open>auction.current_bid || auction.starting_price\<close>: the starting price stands in for
  a \<^verbatim>\<open>current_bid\<close> that is null or zero.\<close>

definition effective_bid :: "auction \<Rightarrow> money" where
  "effective_bid a =
     (case current_bid a of
        None \<Rightarrow> starting_price a
      | Some c \<Rightarrow> if c = 0 then starting_price a else c)"

text \<open>\<^verbatim>\<open>Math.max(currentBid * 0.05, 1)\<close>\<close>

definition minIncrement :: "money \<Rightarrow> money" where
  "minIncrement currentBid = max (currentBid * (5 / 100)) 1"

text \<open>\<^verbatim>\<open>x.toFixed(2)\<close>, as the number of cents it prints: the nearest multiple of 0.01, the
  larger one of two equally near.\<close>

definition toFixed2 :: "money \<Rightarrow> int" where
  "toFixed2 x = (if x < 0 then - \<lfloor>(- x) * 100 + 1 / 2\<rfloor> else \<lfloor>x * 100 + 1 / 2\<rfloor>)"

text \<open>\<^verbatim>\<open>listing && listing.seller_id === bidderId\<close>, for the listing that the read of the
  auction joins in: false when the auction has no listing row.\<close>

definition seller_is :: "store \<Rightarrow> auction \<Rightarrow> ident \<Rightarrow> bool" where
  "seller_is s auction bidderId =
     (case map_of (listings s) (listing_id auction) of
        None \<Rightarrow> False
      | Some listing \<Rightarrow> seller_id listing = bidderId)"

text \<open>
  \<^verbatim>\<open>placeBid\<close> up to its \<^verbatim>\<open>try\<close> block: the read of the auction row (with the seller of
  its listing joined in) and the checks on that snapshot.  It returns the snapshot.
\<close>

definition placeBid_check ::
  "store \<Rightarrow> ident \<Rightarrow> ident \<Rightarrow> money \<Rightarrow> time \<Rightarrow> error + auction" where
  "placeBid_check s auctionId bidderId bidAmount now =
     (case find_auction s auctionId of
        None \<Rightarrow> Inl AuctionNotFound
      | Some auction \<Rightarrow>
          if status auction \<noteq> Active then Inl AuctionNotActive
          else if auction_end auction < now then Inl AuctionExpired
          else if seller_is s auction bidderId then Inl SelfBidNotAllowed
          else
            let currentBid = effective_bid auction;
                minInc = minIncrement currentBid
            in if bidAmount \<le> currentBid then Inl (BidNotHigher (toFixed2 currentBid))
               else if bidAmount < currentBid + minInc
               then Inl (BidIncrementTooSmall (toFixed2 minInc))
               else Inr auction)"

text \<open>
  The \<^verbatim>\<open>try\<close> block of \<^verbatim>\<open>placeBid\<close>, run on the store as it is when the block is reached,
  with the snapshot \<open>auction\<close> that the checks read.  The insert into \<^verbatim>\<open>bids\<close> may fail: the
  service logs a warning and goes on to update the auction from the snapshot
  (\<^verbatim>\<open>current_bid: bidAmount, bid_count: (auction.bid_count || 0) + 1\<close>, with no condition on
  the stored row).  Building the result then reads \<^verbatim>\<open>bid.id\<close>, which throws for the
  missing row, and the \<^verbatim>\<open>catch\<close> turns that into "Failed to place bid".
\<close>

definition placeBid_commit ::
  "store \<Rightarrow> auction \<Rightarrow> ident \<Rightarrow> ident \<Rightarrow> money \<Rightarrow> string \<Rightarrow> time \<Rightarrow> ident
     \<Rightarrow> (error + bid) \<times> store" where
  "placeBid_commit s auction auctionId bidderId bidAmount currency now bidId =
     (let (bid, s1) = insert_bid s
            \<lparr>bid_id = bidId,
             auction_id = auctionId,
             bidder_id = bidderId,
             bid_amount = bidAmount,
             bid_currency = (if currency = [] then ''USD'' else currency),
             bid_time = now,
             is_winning = False\<rparr>;
          currentBidCount = bid_count auction;
          s2 = update_auction s1 auctionId
                 (\<lambda>a. a\<lparr>current_bid := Some bidAmount,
                         bid_count := currentBidCount + 1,
                         updated_at := now\<rparr>)
      in case bid of
           None \<Rightarrow> (Inl FailedToPlaceBid, s2)
         | Some b \<Rightarrow> (Inr b, s2))"

text \<open>\<^verbatim>\<open>placeBid\<close> when nothing else touches the store between its read and its writes.\<close>

definition placeBid ::
  "store \<Rightarrow> ident \<Rightarrow> ident \<Rightarrow> money \<Rightarrow> string \<Rightarrow> time \<Rightarrow> ident \<Rightarrow> (error + bid) \<times> store" where
  "placeBid s auctionId bidderId bidAmount currency now bidId =
     (case placeBid_check s auctionId bidderId bidAmount now of
        Inl e \<Rightarrow> (Inl e, s)
      | Inr auction \<Rightarrow> placeBid_commit s auction auctionId bidderId bidAmount currency now bidId)"

subsection \<open>Closing, extending and cancelling\<close>

text \<open>
  \<^verbatim>\<open>endAuction\<close>: the highest bid of the auction, if there is one, is marked winning, its
  bidder becomes the winning bidder and the listing is set to sold; the auction row is
  set to ended in every case.  The final update selects the row back and fails when there
  is none.
\<close>

definition endAuction :: "store \<Rightarrow> ident \<Rightarrow> time \<Rightarrow> (error + auction) \<times> store" where
  "endAuction s auctionId now =
     (let highestBid = highest (bids_of s auctionId);
          s1 = (case highestBid of
                  None \<Rightarrow> s
                | Some h \<Rightarrow>
                    let sa = mark_winning s (bid_id h)
                    in (case find_auction sa auctionId of
                          None \<Rightarrow> sa
                        | Some a \<Rightarrow>
                            update_listing sa (listing_id a) (\<lambda>l. l\<lparr>listing_status := ''sold''\<rparr>)));
          updateData = (\<lambda>a. case highestBid of
                          None \<Rightarrow> a\<lparr>status := Ended, updated_at := now\<rparr>
                        | Some h \<Rightarrow> a\<lparr>status := Ended, updated_at := now,
                                     winning_bidder_id := Some (bidder_id h)\<rparr>);
          s2 = update_auction s1 auctionId updateData
      in case find_auction s2 auctionId of
           None \<Rightarrow> (Inl FailedToEndAuction, s2)
         | Some a \<Rightarrow> (Inr a, s2))"

text \<open>\<^verbatim>\<open>.eq('status', 'active').lt('auction_end', now)\<close>: the ids of the active auctions
  whose end lies before \<open>now\<close>.\<close>

definition expired_active :: "store \<Rightarrow> time \<Rightarrow> ident list" where
  "expired_active s now =
     map fst (filter (\<lambda>(k, a). status a = Active \<and> auction_end a < now) (auctions s))"

text \<open>\<^verbatim>\<open>checkAndEndExpiredAuctions\<close>: each expired auction is ended; an exception of
  \<^verbatim>\<open>endAuction\<close> is logged and the loop goes on.\<close>

definition checkAndEndExpiredAuctions :: "store \<Rightarrow> time \<Rightarrow> store" where
  "checkAndEndExpiredAuctions s now =
     fold (\<lambda>auctionId s'. snd (endAuction s' auctionId now)) (expired_active s now) s"

text \<open>\<^verbatim>\<open>extendAuction\<close>: \<open>additionalMinutes\<close> is a whole number of minutes.\<close>

definition extendAuction ::
  "store \<Rightarrow> ident \<Rightarrow> int \<Rightarrow> time \<Rightarrow> (error + auction) \<times> store" where
  "extendAuction s auctionId additionalMinutes now =
     (case find_auction s auctionId of
        None \<Rightarrow> (Inl AuctionNotFound, s)
      | Some auction \<Rightarrow>
          if status auction \<noteq> Active then (Inl OnlyActiveExtended, s)
          else
            let maxExtension = 24 * 60
            in if additionalMinutes > maxExtension then (Inl (ExtensionTooLong maxExtension), s)
               else
                 let currentEnd = auction_end auction;
                     newEndTime = currentEnd + additionalMinutes * 60000;
                     s' = update_auction s auctionId
                            (\<lambda>a. a\<lparr>auction_end := newEndTime, updated_at := now\<rparr>)
                 in (case find_auction s' auctionId of
                       None \<Rightarrow> (Inl FailedToExtendAuction, s')
                     | Some updatedAuction \<Rightarrow> (Inr updatedAuction, s')))"

text \<open>\<^verbatim>\<open>cancelAuction\<close>: refused when the auction has a bid; the update addresses the row
  only while it is active, and fails when it finds no such row.\<close>

definition cancelAuction ::
  "store \<Rightarrow> ident \<Rightarrow> string \<Rightarrow> time \<Rightarrow> (error + auction) \<times> store" where
  "cancelAuction s auctionId reason now =
     (if bids_of s auctionId \<noteq> [] then (Inl CannotCancelWithBids, s)
      else
        (case find_auction s auctionId of
           None \<Rightarrow> (Inl FailedToCancelAuction, s)
         | Some a \<Rightarrow>
             if status a = Active
             then
               let s' = update_auction s auctionId (\<lambda>a. a\<lparr>status := Cancelled, updated_at := now\<rparr>)
               in (case find_auction s' auctionId of
                     None \<Rightarrow> (Inl FailedToCancelAuction, s')
                   | Some a' \<Rightarrow> (Inr a', s'))
             else (Inl FailedToCancelAuction, s)))"

subsection \<open>The listings module\<close>

text \<open>
  \<^verbatim>\<open>src/listings/listings.service.ts\<close> has a bidding of its own kind, on the listing instead
  of the auction row.  Its \<^verbatim>\<open>placeBid\<close> reads the listing and the highest amount among the
  bids of the listing (rows of another shape than those above, keyed by \<^verbatim>\<open>listing_id\<close>;
  \<open>highestBid\<close> is the result of that query), checks them, inserts a bid row of that shape
  and sets \<^verbatim>\<open>price_amount\<close> of the listing.  Only its checks are modelled: it never reads
  or writes the \<^verbatim>\<open>auctions\<close> table.  The result of the checks is the current price
  \<^verbatim>\<open>highestBid?.amount || listing.price_amount\<close>.
\<close>

definition listings_placeBid_check ::
  "store \<Rightarrow> ident \<Rightarrow> ident \<Rightarrow> money \<Rightarrow> money option \<Rightarrow> time \<Rightarrow> error + money" where
  "listings_placeBid_check s listingId userId amount highestBid now =
     (case map_of (listings s) listingId of
        None \<Rightarrow> Inl ListingNotFound
      | Some listing \<Rightarrow>
          if listing_kind listing \<noteq> AUCTION then Inl NotAnAuction
          else if seller_id listing = userId then Inl OwnListing
          else if (case listing_auction_end listing of None \<Rightarrow> False | Some e \<Rightarrow> e < now)
          then Inl AuctionExpired
          else
            let currentPrice = (case highestBid of
                                  None \<Rightarrow> price_amount listing
                                | Some h \<Rightarrow> if h = 0 then price_amount listing else h)
            in if amount \<le> currentPrice then Inl (BidNotAbovePrice currentPrice)
               else Inr currentPrice)"

text \<open>\<^verbatim>\<open>closeExpiredAuctions\<close> of the listings module: every active listing of type auction
  whose \<^verbatim>\<open>auction_end\<close> lies before \<open>now\<close> is set to expired.  The ids are selected first and
  each is then updated by id, which comes to the same rows under the primary key.\<close>

definition closeExpiredAuctions :: "store \<Rightarrow> time \<Rightarrow> store" where
  "closeExpiredAuctions s now =
     fold (\<lambda>listingId s'. update_listing s' listingId (\<lambda>l. l\<lparr>listing_status := ''expired''\<rparr>))
       (map fst (filter (\<lambda>(k, l). listing_kind l = AUCTION \<and> listing_status l = ''active''
                   \<and> (case listing_auction_end l of None \<Rightarrow> False | Some e \<Rightarrow> e < now))
                 (listings s)))
       s"

section \<open>Reachable stores\<close>

text \<open>
  The stores that the operations above produce, one operation after another, from a
  database without auctions and listings, with an empty \<^verbatim>\<open>bids\<close> table or without one.
\<close>

inductive reachable :: "store \<Rightarrow> bool" where
  reach_init: "reachable \<lparr>auctions = [], bids = (if has_table then Some [] else None), listings = []\<rparr>"
| reach_create: "reachable s \<Longrightarrow> reachable (snd (createListing s listingData listingId auctionId now))"
| reach_bid: "reachable s \<Longrightarrow> reachable (snd (placeBid s auctionId bidderId bidAmount currency now bidId))"
| reach_end: "reachable s \<Longrightarrow> reachable (snd (endAuction s auctionId now))"
| reach_sweep: "reachable s \<Longrightarrow> reachable (checkAndEndExpiredAuctions s now)"
| reach_extend: "reachable s \<Longrightarrow> reachable (snd (extendAuction s auctionId additionalMinutes now))"
| reach_cancel: "reachable s \<Longrightarrow> reachable (snd (cancelAuction s auctionId reason now))"
| reach_close: "reachable s \<Longrightarrow> reachable (closeExpiredAuctions s now)"

text \<open>
  What the bookkeeping of an auction depends on: of each auction its starting price, its
  current bid and its count, and of each bid its auction and its amount.  \<open>consistent\<close> is
  the invariant of these two views that every reachable store satisfies.
\<close>

definition money_view :: "store \<Rightarrow> (ident \<times> money \<times> money option \<times> int) list" where
  "money_view s = map (\<lambda>(k, a). (k, starting_price a, current_bid a, bid_count a)) (auctions s)"

definition bid_view :: "store \<Rightarrow> (ident \<times> money) list option" where
  "bid_view s = map_option (map (\<lambda>b. (auction_id b, bid_amount b))) (bids s)"

definition amounts_of :: "ident \<Rightarrow> (ident \<times> money) list \<Rightarrow> money list" where
  "amounts_of k rows = map snd (filter (\<lambda>r. fst r = k) rows)"

definition top_bid :: "money \<Rightarrow> money list \<Rightarrow> money" where
  "top_bid sp ams = (if ams = [] then sp else Max (set ams))"

definition consistent ::
  "(ident \<times> money \<times> money option \<times> int) list \<Rightarrow> (ident \<times> money) list option \<Rightarrow> bool" where
  "consistent mv bv \<longleftrightarrow>
     distinct (map fst mv)
   \<and> (\<forall>(k, sp, cb, n) \<in> set mv. \<exists>c. cb = Some c \<and> sp \<le> c \<and> 0 \<le> n \<and> (n = 0 \<longrightarrow> c = sp))
   \<and> (\<forall>rows. bv = Some rows \<longrightarrow>
          (\<forall>r \<in> set rows. fst r \<in> fst ` set mv)
        \<and> (\<forall>(k, sp, cb, n) \<in> set mv. 0 \<le> sp \<longrightarrow>
              cb = Some (top_bid sp (amounts_of k rows)) \<and> n = int (length (amounts_of k rows))))"

section \<open>Example stores\<close>

text \<open>
  The scenario of the specification: the seller \<open>''seller''\<close> lists an item at a starting
  price of 100 as auction \<open>''A''\<close> of listing \<open>''L''\<close>, which ends at instant 1000.  \<open>store0\<close>
  is the empty database, \<open>storeA\<close> the database after \<^verbatim>\<open>createListing\<close>.
\<close>

definition store0 :: store where
  "store0 = \<lparr>auctions = [], bids = Some [], listings = []\<rparr>"

definition listingL :: listing where
  "listingL = \<lparr>seller_id = ''seller'', price_amount = 100, listing_kind = AUCTION,
     listing_auction_end = None, listing_status = ''active''\<rparr>"

definition auctionA :: auction where
  "auctionA = \<lparr>listing_id = ''L'', auction_end = 1000, starting_price = 100,
     current_bid = Some 100, bid_count = 0, winning_bidder_id = None, status = Active,
     reserve_price = None, created_at = 0, updated_at = 0\<rparr>"

definition storeA :: store where
  "storeA = \<lparr>auctions = [(''A'', auctionA)], bids = Some [], listings = [(''L'', listingL)]\<rparr>"

text \<open>The auction after \<^verbatim>\<open>endAuction\<close> at instant 2000, without a bid.\<close>

definition storeA_ended :: store where
  "storeA_ended = snd (endAuction storeA ''A'' 2000)"

text \<open>Bob bids 105 at instant 500, then Carol bids 111 at instant 600.\<close>

definition bid105 :: bid where
  "bid105 = \<lparr>bid_id = ''b1'', auction_id = ''A'', bidder_id = ''bob'', bid_amount = 105,
     bid_currency = ''USD'', bid_time = 500, is_winning = False\<rparr>"

definition bid111 :: bid where
  "bid111 = \<lparr>bid_id = ''b2'', auction_id = ''A'', bidder_id = ''carol'', bid_amount = 111,
     bid_currency = ''USD'', bid_time = 600, is_winning = False\<rparr>"

definition auctionB :: auction where
  "auctionB = auctionA\<lparr>current_bid := Some 105, bid_count := 1, updated_at := 500\<rparr>"

definition storeB :: store where
  "storeB = snd (placeBid storeA ''A'' ''bob'' 105 ''USD'' 500 ''b1'')"

definition storeC :: store where
  "storeC = snd (placeBid storeB ''A'' ''carol'' 111 ''USD'' 600 ''b2'')"

text \<open>The auction with Bob's bid of 105 and a reserve price of 150.\<close>

definition storeR :: store where
  "storeR = update_auction storeB ''A'' (\<lambda>a. a\<lparr>reserve_price := Some 150\<rparr>)"

text \<open>
  Two invocations of \<^verbatim>\<open>placeBid\<close> that both read \<open>storeA\<close> before either writes: Bob's bid of
  115 and Carol's bid of 110 are both committed with the snapshot \<open>auctionA\<close>.
\<close>

definition bidBob :: bid where
  "bidBob = \<lparr>bid_id = ''b1'', auction_id = ''A'', bidder_id = ''bob'', bid_amount = 115,
     bid_currency = ''USD'', bid_time = 500, is_winning = False\<rparr>"

definition bidCarol :: bid where
  "bidCarol = \<lparr>bid_id = ''b2'', auction_id = ''A'', bidder_id = ''carol'', bid_amount = 110,
     bid_currency = ''USD'', bid_time = 501, is_winning = False\<rparr>"

definition race1 :: store where
  "race1 = snd (placeBid_commit storeA auctionA ''A'' ''bob'' 115 ''USD'' 500 ''b1'')"

definition race2 :: store where
  "race2 = snd (placeBid_commit race1 auctionA ''A'' ''carol'' 110 ''USD'' 501 ''b2'')"

text \<open>The scenario in a database without a \<^verbatim>\<open>bids\<close> table, before and after a bid of 105.\<close>

definition storeA_notable :: store where
  "storeA_notable = storeA\<lparr>bids := None\<rparr>"

definition storeN :: store where
  "storeN = snd (placeBid storeA_notable ''A'' ''bob'' 105 ''USD'' 500 ''b1'')"

section \<open>Facts about the store\<close>

subsection \<open>Rows and tables\<close>

lemma map_of_update_rows:
  "map_of (map (\<lambda>(k, a). if k = aid then (k, f a) else (k, a)) xs) k =
     (if k = aid then map_option f (map_of xs aid) else map_of xs k)"
  by (induction xs) auto

lemma find_update_auction:
  "find_auction (update_auction s aid f) k =
     (if k = aid then map_option f (find_auction s aid) else find_auction s k)"
  by (simp add: find_auction_def update_auction_def map_of_update_rows)

lemma bids_update_auction [simp]: "bids (update_auction s aid f) = bids s"
  by (simp add: update_auction_def)

lemma listings_update_auction [simp]: "listings (update_auction s aid f) = listings s"
  by (simp add: update_auction_def)

lemma find_mark_winning [simp]: "find_auction (mark_winning s i) k = find_auction s k"
  by (simp add: find_auction_def mark_winning_def)

lemma find_update_listing [simp]: "find_auction (update_listing s l f) k = find_auction s k"
  by (simp add: find_auction_def update_listing_def)

lemma bids_update_listing [simp]: "bids (update_listing s l f) = bids s"
  by (simp add: update_listing_def)

lemma bids_of_update_listing [simp]: "bids_of (update_listing s l f) k = bids_of s k"
  by (simp add: bids_of_def)

lemma bids_of_update_auction [simp]: "bids_of (update_auction s a f) k = bids_of s k"
  by (simp add: bids_of_def)

lemma bids_of_mark_winning:
  "bids_of (mark_winning s i) aid =
     map (\<lambda>b. if bid_id b = i then b\<lparr>is_winning := True\<rparr> else b) (bids_of s aid)"
  by (cases "bids s") (auto simp: bids_of_def mark_winning_def filter_map comp_def intro: filter_cong)

subsection \<open>The highest bid\<close>

lemma highest_mem: "highest bs = Some h \<Longrightarrow> h \<in> set bs"
  by (induction bs arbitrary: h) (auto split: option.splits if_splits)

lemma highest_None: "highest bs = None \<longleftrightarrow> bs = []"
  by (cases bs) (auto split: option.splits if_splits)

lemma highest_max: "highest bs = Some h \<Longrightarrow> \<forall>b \<in> set bs. bid_amount b \<le> bid_amount h"
proof (induction bs arbitrary: h)
  case Nil
  then show ?case by simp
next
  case (Cons x xs)
  show ?case
  proof (cases "highest xs")
    case None
    then have "xs = []" by (simp add: highest_None)
    with Cons.prems None show ?thesis by simp
  next
    case (Some g)
    have g: "\<forall>c \<in> set xs. bid_amount c \<le> bid_amount g"
      using Cons.IH [OF Some] by simp
    show ?thesis
    proof (cases "bid_amount x < bid_amount g")
      case True
      with Some Cons.prems have "h = g" by simp
      with g True show ?thesis by auto
    next
      case False
      with Some Cons.prems have "h = x" by simp
      with g False show ?thesis by force
    qed
  qed
qed


subsection \<open>Amounts\<close>

lemma floor_numeral_div_rat:
  "\<lfloor>numeral a / numeral b :: rat\<rfloor> = numeral a div numeral b"
  using floor_divide_of_int_eq [of "numeral a" "numeral b", where ?'a = rat] by simp

lemma minIncrement_ge_1: "1 \<le> minIncrement c"
  by (simp add: minIncrement_def)

lemma effective_after_bid:
  "0 < amount \<Longrightarrow> effective_bid (a\<lparr>current_bid := Some amount, bid_count := n, updated_at := u\<rparr>) = amount"
  by (simp add: effective_bid_def)

subsection \<open>Placing a bid\<close>

lemma placeBid_rejected:
  "placeBid_check s aid bidder amount now = Inl e \<Longrightarrow>
   placeBid s aid bidder amount cur now bidId = (Inl e, s)"
  by (simp add: placeBid_def)


lemma placeBid_check_Inr:
  "placeBid_check s aid bidder amount now = Inr a \<Longrightarrow>
     find_auction s aid = Some a \<and> status a = Active \<and> \<not> auction_end a < now
     \<and> \<not> seller_is s a bidder \<and> effective_bid a < amount
     \<and> effective_bid a + minIncrement (effective_bid a) \<le> amount"
  by (auto simp: placeBid_check_def Let_def split: option.splits if_splits)

lemma placeBid_accepted:
  "placeBid_check s aid bidder amount now = Inr a \<Longrightarrow>
   placeBid s aid bidder amount cur now bidId = placeBid_commit s a aid bidder amount cur now bidId"
  by (simp add: placeBid_def)

lemma find_commit:
  "find_auction (snd (placeBid_commit s snap aid bidder amount cur now bidId)) k =
     (if k = aid
      then map_option (\<lambda>r. r\<lparr>current_bid := Some amount, bid_count := bid_count snap + 1,
                               updated_at := now\<rparr>) (find_auction s aid)
      else find_auction s k)"
  by (simp add: placeBid_commit_def insert_bid_def find_update_auction find_auction_def
      update_auction_def map_of_update_rows split: option.splits)

lemma bids_commit:
  "bids (snd (placeBid_commit s snap aid bidder amount cur now bidId)) =
     map_option (\<lambda>bs. bs @ [\<lparr>bid_id = bidId, auction_id = aid, bidder_id = bidder,
        bid_amount = amount, bid_currency = (if cur = [] then ''USD'' else cur),
        bid_time = now, is_winning = False\<rparr>]) (bids s)"
  by (simp add: placeBid_commit_def insert_bid_def split: option.splits)

lemma fst_commit:
  "fst (placeBid_commit s snap aid bidder amount cur now bidId) =
     (case bids s of None \<Rightarrow> Inl FailedToPlaceBid
      | Some bs \<Rightarrow> Inr \<lparr>bid_id = bidId, auction_id = aid, bidder_id = bidder,
        bid_amount = amount, bid_currency = (if cur = [] then ''USD'' else cur),
        bid_time = now, is_winning = False\<rparr>)"
  by (simp add: placeBid_commit_def insert_bid_def split: option.splits)

lemma listings_commit:
  "listings (snd (placeBid_commit s snap aid bidder amount cur now bidId)) = listings s"
  by (simp add: placeBid_commit_def insert_bid_def split: option.splits)

lemma placeBid_Inr:
  assumes "placeBid s aid bidder amount cur now bidId = (Inr b, s')"
  shows "\<exists>bs a. placeBid_check s aid bidder amount now = Inr a \<and> bids s = Some bs
     \<and> b = \<lparr>bid_id = bidId, auction_id = aid, bidder_id = bidder,
        bid_amount = amount, bid_currency = (if cur = [] then ''USD'' else cur),
        bid_time = now, is_winning = False\<rparr>
     \<and> bids s' = Some (bs @ [b])
     \<and> find_auction s' aid = Some (a\<lparr>current_bid := Some amount, bid_count := bid_count a + 1,
                               updated_at := now\<rparr>)
     \<and> listings s' = listings s"
proof (cases "placeBid_check s aid bidder amount now")
  case (Inl e)
  with assms show ?thesis by (simp add: placeBid_def)
next
  case (Inr a)
  then have fa: "find_auction s aid = Some a" by (simp add: placeBid_check_Inr)
  from Inr assms have c: "placeBid_commit s a aid bidder amount cur now bidId = (Inr b, s')"
    by (simp add: placeBid_def)
  from c have f: "fst (placeBid_commit s a aid bidder amount cur now bidId) = Inr b"
    and s: "snd (placeBid_commit s a aid bidder amount cur now bidId) = s'" by simp_all
  from f obtain bs where bs: "bids s = Some bs"
    by (auto simp: fst_commit split: option.splits)
  from f bs have b: "b = \<lparr>bid_id = bidId, auction_id = aid, bidder_id = bidder,
        bid_amount = amount, bid_currency = (if cur = [] then ''USD'' else cur),
        bid_time = now, is_winning = False\<rparr>"
    by (simp add: fst_commit)
  have "bids s' = Some (bs @ [b])"
    using bids_commit [of s a aid bidder amount cur now bidId] s bs b by simp
  moreover have "find_auction s' aid = Some (a\<lparr>current_bid := Some amount,
      bid_count := bid_count a + 1, updated_at := now\<rparr>)"
    using find_commit [of s a aid bidder amount cur now bidId aid] s fa by simp
  moreover have "listings s' = listings s"
    using listings_commit [of s a aid bidder amount cur now bidId] s by simp
  ultimately show ?thesis using Inr bs b by blast
qed

subsection \<open>Closing an auction\<close>

lemma find_endAuction:
  "find_auction (snd (endAuction s aid now)) k =
     (if k = aid
      then map_option (\<lambda>a. case highest (bids_of s aid) of
                None \<Rightarrow> a\<lparr>status := Ended, updated_at := now\<rparr>
              | Some h \<Rightarrow> a\<lparr>status := Ended, updated_at := now,
                            winning_bidder_id := Some (bidder_id h)\<rparr>) (find_auction s aid)
      else find_auction s k)"
  by (auto simp: endAuction_def Let_def find_update_auction split: option.splits)

lemma fst_endAuction:
  "fst (endAuction s aid now) =
     (case find_auction (snd (endAuction s aid now)) aid of
        None \<Rightarrow> Inl FailedToEndAuction | Some a \<Rightarrow> Inr a)"
  by (auto simp: endAuction_def Let_def split: option.splits)

lemma bids_endAuction:
  "bids (snd (endAuction s aid now)) =
     (case highest (bids_of s aid) of
        None \<Rightarrow> bids s
      | Some h \<Rightarrow> map_option (map (\<lambda>b. if bid_id b = bid_id h then b\<lparr>is_winning := True\<rparr> else b)) (bids s))"
  by (auto simp: endAuction_def Let_def mark_winning_def split: option.splits)

lemma bids_of_endAuction:
  "bids_of (snd (endAuction s aid now)) k =
     (case highest (bids_of s aid) of
        None \<Rightarrow> bids_of s k
      | Some h \<Rightarrow> map (\<lambda>b. if bid_id b = bid_id h then b\<lparr>is_winning := True\<rparr> else b) (bids_of s k))"
  by (auto simp: endAuction_def Let_def bids_of_mark_winning split: option.splits)

lemma bids_of_endAuction_empty:
  "bids_of s aid = [] \<Longrightarrow> bids_of (snd (endAuction s k now)) aid = []"
  by (simp add: bids_of_endAuction split: option.splits)

lemma snd_endAuction:
  "snd (endAuction s aid now) =
     update_auction
       (case highest (bids_of s aid) of
          None \<Rightarrow> s
        | Some h \<Rightarrow>
            (case find_auction s aid of
               None \<Rightarrow> mark_winning s (bid_id h)
             | Some a \<Rightarrow> update_listing (mark_winning s (bid_id h)) (listing_id a)
                           (\<lambda>l. l\<lparr>listing_status := ''sold''\<rparr>)))
       aid
       (\<lambda>a. case highest (bids_of s aid) of
                None \<Rightarrow> a\<lparr>status := Ended, updated_at := now\<rparr>
              | Some h \<Rightarrow> a\<lparr>status := Ended, updated_at := now,
                            winning_bidder_id := Some (bidder_id h)\<rparr>)"
  by (cases "highest (bids_of s aid)"; cases "find_auction s aid")
    (simp_all add: endAuction_def Let_def find_update_auction split: option.split)






lemma sweep_fold:
  "find_auction s aid = Some x \<Longrightarrow> bids_of s aid = [] \<Longrightarrow>
   find_auction (fold (\<lambda>auctionId s'. snd (endAuction s' auctionId now)) ks s) aid =
     Some (if aid \<in> set ks then x\<lparr>status := Ended, updated_at := now\<rparr> else x)
   \<and> bids_of (fold (\<lambda>auctionId s'. snd (endAuction s' auctionId now)) ks s) aid = []"
proof (induction ks arbitrary: s x)
  case Nil
  then show ?case by simp
next
  case (Cons k ks)
  let ?s = "snd (endAuction s k now)"
  have b: "bids_of ?s aid = []" using Cons.prems(2) by (rule bids_of_endAuction_empty)
  show ?case
  proof (cases "k = aid")
    case True
    have f: "find_auction ?s aid = Some (x\<lparr>status := Ended, updated_at := now\<rparr>)"
      using Cons.prems True by (simp add: find_endAuction)
    from Cons.IH [OF f b] True show ?thesis by simp
  next
    case False
    have f: "find_auction ?s aid = Some x"
      using Cons.prems False by (simp add: find_endAuction)
    from Cons.IH [OF f b] False show ?thesis by simp
  qed
qed

lemma expired_active_mem:
  "find_auction s aid = Some a \<Longrightarrow> status a = Active \<Longrightarrow> auction_end a < now \<Longrightarrow>
   aid \<in> set (expired_active s now)"
  by (force simp: expired_active_def find_auction_def dest: map_of_SomeD)

subsection \<open>The invariant of the reachable stores\<close>

lemma money_view_update_auction:
  "(\<And>a. starting_price (f a) = starting_price a \<and> current_bid (f a) = current_bid a
        \<and> bid_count (f a) = bid_count a) \<Longrightarrow>
   money_view (update_auction s aid f) = money_view s"
  by (auto simp: money_view_def update_auction_def)

lemma bid_view_update_auction [simp]: "bid_view (update_auction s aid f) = bid_view s"
  by (simp add: bid_view_def)

lemma views_update_listing [simp]:
  "money_view (update_listing s l f) = money_view s" "bid_view (update_listing s l f) = bid_view s"
  by (simp_all add: money_view_def bid_view_def update_listing_def)

lemma views_mark_winning [simp]:
  "money_view (mark_winning s i) = money_view s" "bid_view (mark_winning s i) = bid_view s"
  by (cases "bids s"; simp add: money_view_def bid_view_def mark_winning_def comp_def)+

lemma views_endAuction:
  "money_view (snd (endAuction s aid now)) = money_view s"
  "bid_view (snd (endAuction s aid now)) = bid_view s"
  by (cases "highest (bids_of s aid)"; cases "find_auction s aid";
      simp add: snd_endAuction money_view_update_auction)+

lemma views_sweep:
  "money_view (checkAndEndExpiredAuctions s now) = money_view s
   \<and> bid_view (checkAndEndExpiredAuctions s now) = bid_view s"
proof -
  have "money_view (fold (\<lambda>auctionId s'. snd (endAuction s' auctionId now)) ks s) = money_view s
   \<and> bid_view (fold (\<lambda>auctionId s'. snd (endAuction s' auctionId now)) ks s) = bid_view s" for ks
    by (induction ks arbitrary: s) (simp_all add: views_endAuction)
  then show ?thesis by (simp add: checkAndEndExpiredAuctions_def)
qed

lemma views_extendAuction:
  "money_view (snd (extendAuction s aid m now)) = money_view s"
  "bid_view (snd (extendAuction s aid m now)) = bid_view s"
  by (auto simp: extendAuction_def Let_def money_view_update_auction split: option.splits)

lemma views_cancelAuction:
  "money_view (snd (cancelAuction s aid r now)) = money_view s"
  "bid_view (snd (cancelAuction s aid r now)) = bid_view s"
  by (auto simp: cancelAuction_def Let_def money_view_update_auction split: option.splits)

lemma views_closeExpiredAuctions:
  "money_view (closeExpiredAuctions s now) = money_view s
   \<and> bid_view (closeExpiredAuctions s now) = bid_view s"
proof -
  have "money_view (fold (\<lambda>listingId s'. update_listing s' listingId f) ks s) = money_view s
   \<and> bid_view (fold (\<lambda>listingId s'. update_listing s' listingId f) ks s) = bid_view s" for ks f
    by (induction ks arbitrary: s) simp_all
  then show ?thesis by (simp add: closeExpiredAuctions_def)
qed

lemma views_createListing:
  "bid_view (snd (createListing s ld lid aid now)) = bid_view s"
  "money_view (snd (createListing s ld lid aid now)) = money_view s
   \<or> (aid \<notin> fst ` set (money_view s)
      \<and> money_view (snd (createListing s ld lid aid now)) =
          money_view s @ [(aid, ld_price_amount ld, Some (ld_price_amount ld), 0)])"
  by (auto simp: createListing_def Let_def money_view_def bid_view_def delete_listing_def image_iff
      split: option.splits)

lemma money_view_commit:
  "money_view (snd (placeBid_commit s snap aid bidder amount cur now bidId)) =
     map (\<lambda>(k, sp, cb, n). if k = aid then (k, sp, Some amount, bid_count snap + 1)
                             else (k, sp, cb, n)) (money_view s)"
  by (cases "bids s") (auto simp: placeBid_commit_def insert_bid_def money_view_def update_auction_def)

lemma bid_view_commit:
  "bid_view (snd (placeBid_commit s snap aid bidder amount cur now bidId)) =
     map_option (\<lambda>rows. rows @ [(aid, amount)]) (bid_view s)"
  by (cases "bids s") (auto simp: placeBid_commit_def insert_bid_def bid_view_def)

lemma find_money_view:
  "find_auction s aid = Some a \<Longrightarrow>
     (aid, starting_price a, current_bid a, bid_count a) \<in> set (money_view s)"
  by (force simp: find_auction_def money_view_def dest: map_of_SomeD)

lemma amounts_of_append [simp]:
  "amounts_of k (rows @ [(aid, amount)]) =
     (if k = aid then amounts_of k rows @ [amount] else amounts_of k rows)"
  by (simp add: amounts_of_def)

lemma top_bid_append:
  assumes "top_bid sp ams < amount"
  shows "top_bid sp (ams @ [amount]) = amount"
proof (cases "ams = []")
  case True
  then show ?thesis by (simp add: top_bid_def)
next
  case False
  with assms have "Max (set ams) < amount" by (simp add: top_bid_def)
  then have "max amount (Max (set ams)) = amount" by simp
  with False show ?thesis by (simp add: top_bid_def)
qed

lemma consistent_bid:
  assumes c: "consistent mv bv" and row: "(aid, sp, cb, n) \<in> set mv"
    and gt: "(case cb of None \<Rightarrow> sp | Some c \<Rightarrow> if c = 0 then sp else c) < amount"
  shows "consistent
      (map (\<lambda>(k, sp', cb', n'). if k = aid then (k, sp', Some amount, n + 1) else (k, sp', cb', n')) mv)
      (map_option (\<lambda>rows. rows @ [(aid, amount)]) bv)"
proof -
  let ?u = "\<lambda>(k, sp', cb', n'). if k = aid then (k, sp', Some amount, n + 1) else (k, sp', cb', n')"
  from c have d: "distinct (map fst mv)" by (simp add: consistent_def)
  have keys: "map fst (map ?u mv) = map fst mv" by (induction mv) auto
  have uniq: "(aid, sp', cb', n') \<in> set mv \<Longrightarrow> sp' = sp \<and> cb' = cb \<and> n' = n" for sp' cb' n'
    using d row by (meson eq_key_imp_eq_value prod.inject)
  from c row obtain c0 where c0: "cb = Some c0" "sp \<le> c0" "0 \<le> n"
    by (fastforce simp: consistent_def)
  from gt c0 have sp_lt: "sp < amount" by (auto split: if_splits)
  have mem: "r \<in> set (map ?u mv) \<Longrightarrow>
      (fst r \<noteq> aid \<and> r \<in> set mv) \<or> r = (aid, sp, Some amount, n + 1)" for r
    using uniq by (auto split: if_splits)
  have p1: "distinct (map fst (map ?u mv))" unfolding keys by (rule d)
  have p2: "\<forall>(k, sp', cb', n') \<in> set (map ?u mv).
      \<exists>c. cb' = Some c \<and> sp' \<le> c \<and> 0 \<le> n' \<and> (n' = 0 \<longrightarrow> c = sp')"
  proof (clarify)
    fix k sp' cb' n' assume "(k, sp', cb', n') \<in> set (map ?u mv)"
    from mem [OF this] show "\<exists>c. cb' = Some c \<and> sp' \<le> c \<and> 0 \<le> n' \<and> (n' = 0 \<longrightarrow> c = sp')"
    proof
      assume "fst (k, sp', cb', n') \<noteq> aid \<and> (k, sp', cb', n') \<in> set mv"
      with c show ?thesis by (fastforce simp: consistent_def)
    next
      assume "(k, sp', cb', n') = (aid, sp, Some amount, n + 1)"
      with sp_lt c0 show ?thesis by auto
    qed
  qed
  have p3: "\<forall>rows'. map_option (\<lambda>rows. rows @ [(aid, amount)]) bv = Some rows' \<longrightarrow>
          (\<forall>r \<in> set rows'. fst r \<in> fst ` set (map ?u mv))
        \<and> (\<forall>(k, sp', cb', n') \<in> set (map ?u mv). 0 \<le> sp' \<longrightarrow>
              cb' = Some (top_bid sp' (amounts_of k rows')) \<and> n' = int (length (amounts_of k rows')))"
  proof (intro allI impI)
    fix rows' assume "map_option (\<lambda>rows. rows @ [(aid, amount)]) bv = Some rows'"
    then obtain rows where bv: "bv = Some rows" and rows': "rows' = rows @ [(aid, amount)]"
      by auto
    from c bv have r1: "\<forall>r \<in> set rows. fst r \<in> fst ` set mv"
      and r2: "\<forall>(k, sp', cb', n') \<in> set mv. 0 \<le> sp' \<longrightarrow>
              cb' = Some (top_bid sp' (amounts_of k rows)) \<and> n' = int (length (amounts_of k rows))"
      by (simp_all add: consistent_def)
    have ks: "fst ` set (map ?u mv) = fst ` set mv"
      using keys by (metis list.set_map)
    have a1: "\<forall>r \<in> set rows'. fst r \<in> fst ` set (map ?u mv)"
      unfolding ks rows' using r1 row by force
    have a2: "\<forall>(k, sp', cb', n') \<in> set (map ?u mv). 0 \<le> sp' \<longrightarrow>
              cb' = Some (top_bid sp' (amounts_of k rows')) \<and> n' = int (length (amounts_of k rows'))"
    proof (clarify)
      fix k sp' cb' n' assume m: "(k, sp', cb', n') \<in> set (map ?u mv)" and nn: "0 \<le> sp'"
      from mem [OF m]
      show "cb' = Some (top_bid sp' (amounts_of k rows')) \<and> n' = int (length (amounts_of k rows'))"
      proof
        assume "fst (k, sp', cb', n') \<noteq> aid \<and> (k, sp', cb', n') \<in> set mv"
        with r2 nn show ?thesis by (fastforce simp: rows')
      next
        assume e: "(k, sp', cb', n') = (aid, sp, Some amount, n + 1)"
        with nn have sp0: "0 \<le> sp" by simp
        from r2 row sp0 have old: "cb = Some (top_bid sp (amounts_of aid rows))"
          "n = int (length (amounts_of aid rows))" by auto
        from c0 sp0 have "(if c0 = 0 then sp else c0) = c0" by auto
        with gt c0 have "c0 < amount" by simp
        with old c0 have "top_bid sp (amounts_of aid rows) < amount" by simp
        then have "top_bid sp (amounts_of aid rows @ [amount]) = amount" by (rule top_bid_append)
        with e old show ?thesis by (simp add: rows')
      qed
    qed
    from a1 a2 show "(\<forall>r \<in> set rows'. fst r \<in> fst ` set (map ?u mv))
        \<and> (\<forall>(k, sp', cb', n') \<in> set (map ?u mv). 0 \<le> sp' \<longrightarrow>
              cb' = Some (top_bid sp' (amounts_of k rows')) \<and> n' = int (length (amounts_of k rows')))"
      by blast
  qed
  from p1 p2 p3 show ?thesis unfolding consistent_def by blast
qed

lemma consistent_create:
  assumes c: "consistent mv bv" and fresh: "aid \<notin> fst ` set mv"
  shows "consistent (mv @ [(aid, p, Some p, 0)]) bv"
proof -
  from c have d: "distinct (map fst mv)" by (simp add: consistent_def)
  have p1: "distinct (map fst (mv @ [(aid, p, Some p, 0)]))" using d fresh by simp
  have p2: "\<forall>(k, sp', cb', n') \<in> set (mv @ [(aid, p, Some p, 0)]).
      \<exists>c. cb' = Some c \<and> sp' \<le> c \<and> 0 \<le> n' \<and> (n' = 0 \<longrightarrow> c = sp')"
    using c by (auto simp: consistent_def)
  have p3: "\<forall>rows. bv = Some rows \<longrightarrow>
          (\<forall>r \<in> set rows. fst r \<in> fst ` set (mv @ [(aid, p, Some p, 0)]))
        \<and> (\<forall>(k, sp', cb', n') \<in> set (mv @ [(aid, p, Some p, 0)]). 0 \<le> sp' \<longrightarrow>
              cb' = Some (top_bid sp' (amounts_of k rows)) \<and> n' = int (length (amounts_of k rows)))"
  proof (intro allI impI)
    fix rows assume bv: "bv = Some rows"
    from c bv have r1: "\<forall>r \<in> set rows. fst r \<in> fst ` set mv"
      and r2: "\<forall>(k, sp', cb', n') \<in> set mv. 0 \<le> sp' \<longrightarrow>
              cb' = Some (top_bid sp' (amounts_of k rows)) \<and> n' = int (length (amounts_of k rows))"
      by (simp_all add: consistent_def)
    from r1 fresh have "amounts_of aid rows = []"
      by (auto simp: amounts_of_def filter_empty_conv)
    with r1 r2 show "(\<forall>r \<in> set rows. fst r \<in> fst ` set (mv @ [(aid, p, Some p, 0)]))
        \<and> (\<forall>(k, sp', cb', n') \<in> set (mv @ [(aid, p, Some p, 0)]). 0 \<le> sp' \<longrightarrow>
              cb' = Some (top_bid sp' (amounts_of k rows)) \<and> n' = int (length (amounts_of k rows)))"
      by (auto simp: top_bid_def)
  qed
  from p1 p2 p3 show ?thesis unfolding consistent_def by blast
qed

lemma reachable_consistent: "reachable s \<Longrightarrow> consistent (money_view s) (bid_view s)"
proof (induction rule: reachable.induct)
  case (reach_init has_table)
  then show ?case by (simp add: consistent_def money_view_def bid_view_def)
next
  case (reach_create s listingData listingId auctionId now)
  from views_createListing(2) [of s listingData listingId auctionId now] show ?case
  proof
    assume "money_view (snd (createListing s listingData listingId auctionId now)) = money_view s"
    with reach_create.IH show ?thesis by (simp add: views_createListing(1))
  next
    assume "auctionId \<notin> fst ` set (money_view s)
      \<and> money_view (snd (createListing s listingData listingId auctionId now)) =
          money_view s @ [(auctionId, ld_price_amount listingData, Some (ld_price_amount listingData), 0)]"
    with consistent_create [OF reach_create.IH] show ?thesis by (simp add: views_createListing(1))
  qed
next
  case (reach_bid s auctionId bidderId bidAmount currency now bidId)
  show ?case
  proof (cases "placeBid_check s auctionId bidderId bidAmount now")
    case (Inl e)
    with reach_bid.IH show ?thesis by (simp add: placeBid_def)
  next
    case (Inr a)
    then have f: "find_auction s auctionId = Some a" and gt: "effective_bid a < bidAmount"
      using placeBid_check_Inr by blast+
    from consistent_bid [OF reach_bid.IH find_money_view [OF f], of bidAmount] gt
    show ?thesis by (simp add: placeBid_def Inr money_view_commit bid_view_commit effective_bid_def)
  qed
next
  case (reach_end s auctionId now)
  then show ?case by (simp add: views_endAuction)
next
  case (reach_sweep s now)
  then show ?case by (simp add: views_sweep)
next
  case (reach_extend s auctionId additionalMinutes now)
  then show ?case by (simp add: views_extendAuction)
next
  case (reach_cancel s auctionId reason now)
  then show ?case by (simp add: views_cancelAuction)
next
  case (reach_close s now)
  then show ?case by (simp add: views_closeExpiredAuctions)
qed

lemma amounts_of_bids:
  "amounts_of k (map (\<lambda>b. (auction_id b, bid_amount b)) bs) =
     map bid_amount (filter (\<lambda>b. auction_id b = k) bs)"
  by (induction bs) (simp_all add: amounts_of_def)

lemma top_bid_highest:
  "top_bid sp (map bid_amount bs) = (case highest bs of None \<Rightarrow> sp | Some h \<Rightarrow> bid_amount h)"
proof (cases "highest bs")
  case None
  then show ?thesis by (simp add: highest_None top_bid_def)
next
  case (Some h)
  then have ne: "bs \<noteq> []" by auto
  have "Max (set (map bid_amount bs)) = bid_amount h"
  proof (rule Max_eqI)
    show "finite (set (map bid_amount bs))" by simp
    show "y \<le> bid_amount h" if "y \<in> set (map bid_amount bs)" for y
      using that highest_max [OF Some] by auto
    show "bid_amount h \<in> set (map bid_amount bs)"
      using highest_mem [OF Some] by simp
  qed
  with Some ne show ?thesis by (simp add: top_bid_def)
qed

subsection \<open>The example stores\<close>

lemma toFixed2_examples: "toFixed2 5 = 500" "toFixed2 100 = 10000" "toFixed2 105 = 10500"
  by (simp_all add: toFixed2_def floor_numeral_div_rat)

lemma createListing_storeA:
  "snd (createListing store0 \<lparr>ld_seller_id = ''seller'', ld_price_amount = 100,
      ld_listing_type = AUCTION, ld_auction_end = Some 1000\<rparr> ''L'' ''A'' 0) = storeA"
  by (simp add: createListing_def store0_def storeA_def auctionA_def listingL_def Let_def)

lemma find_storeA: "find_auction storeA ''A'' = Some auctionA"
  by (simp add: find_auction_def storeA_def)

lemma bids_storeA: "bids storeA = Some []"
  by (simp add: storeA_def)

lemma auctionA_fields:
  "status auctionA = Active" "auction_end auctionA = 1000" "listing_id auctionA = ''L''"
  "bid_count auctionA = 0" "current_bid auctionA = Some 100" "starting_price auctionA = 100"
  by (simp_all add: auctionA_def)

lemma effective_auctionA: "effective_bid auctionA = 100" "minIncrement 100 = 5"
  by (simp_all add: effective_bid_def auctionA_def minIncrement_def)

lemma seller_storeA: "seller_is storeA auctionA bidder \<longleftrightarrow> bidder = ''seller''"
  by (auto simp add: seller_is_def storeA_def auctionA_def listingL_def)

lemma check_storeA:
  "105 \<le> amount \<Longrightarrow> bidder \<noteq> ''seller'' \<Longrightarrow> now \<le> 1000 \<Longrightarrow>
     placeBid_check storeA ''A'' bidder amount now = Inr auctionA"
  by (simp add: placeBid_check_def find_storeA auctionA_fields seller_storeA effective_auctionA
      Let_def)

lemma find_storeA_ended:
  "find_auction storeA_ended ''A'' = Some (auctionA\<lparr>status := Ended, updated_at := 2000\<rparr>)"
  by (simp add: storeA_ended_def endAuction_def bids_of_def storeA_def find_auction_def
      update_auction_def Let_def)

lemma listings_storeA_ended: "listings storeA_ended = listings storeA"
  by (simp add: storeA_ended_def endAuction_def bids_of_def storeA_def find_auction_def
      update_auction_def Let_def)

lemma find_storeA_notable: "find_auction storeA_notable ''A'' = Some auctionA"
  by (simp add: storeA_notable_def find_auction_def storeA_def)

lemma seller_storeA_notable: "seller_is storeA_notable auctionA bidder \<longleftrightarrow> bidder = ''seller''"
  by (auto simp add: seller_is_def storeA_notable_def storeA_def auctionA_def listingL_def)

lemma check_storeA_notable: "placeBid_check storeA_notable ''A'' ''bob'' 105 500 = Inr auctionA"
  by (simp add: placeBid_check_def find_storeA_notable seller_storeA_notable auctionA_fields
      effective_auctionA Let_def)

lemma bids_race1: "bids race1 = Some [bidBob]"
  by (simp add: race1_def bids_commit bids_storeA bidBob_def)

lemma find_race1:
  "find_auction race1 ''A'' = Some (auctionA\<lparr>current_bid := Some 115, bid_count := 1, updated_at := 500\<rparr>)"
  by (simp add: race1_def find_commit find_storeA auctionA_fields)

lemma placeBid_storeA_105:
  "placeBid storeA ''A'' ''bob'' 105 ''USD'' 500 ''b1'' = (Inr bid105, storeB)"
  by (simp add: prod_eq_iff storeB_def placeBid_accepted [OF check_storeA] fst_commit bids_storeA
      bid105_def)

lemma storeB_facts:
  "bids storeB = Some [bid105]"
  "find_auction storeB ''A'' = Some auctionB"
  "listings storeB = listings storeA"
  by (simp_all add: storeB_def placeBid_accepted [OF check_storeA] bids_commit find_commit
      listings_commit bids_storeA find_storeA bid105_def auctionB_def auctionA_fields)

lemma auctionB_fields:
  "status auctionB = Active" "auction_end auctionB = 1000" "listing_id auctionB = ''L''"
  "bid_count auctionB = 1" "current_bid auctionB = Some 105" "starting_price auctionB = 100"
  "effective_bid auctionB = 105" "minIncrement 105 = 21 / 4"
  by (simp_all add: auctionB_def auctionA_def effective_bid_def minIncrement_def)

lemma seller_storeB: "seller_is storeB auctionB bidder \<longleftrightarrow> bidder = ''seller''"
  by (auto simp add: seller_is_def storeB_facts auctionB_fields storeA_def listingL_def)

lemma check_storeB:
  "placeBid_check storeB ''A'' ''carol'' 111 600 = Inr auctionB"
  by (simp add: placeBid_check_def storeB_facts auctionB_fields seller_storeB Let_def)

lemma placeBid_storeB_111:
  "placeBid storeB ''A'' ''carol'' 111 ''USD'' 600 ''b2'' = (Inr bid111, storeC)"
  by (simp add: prod_eq_iff storeC_def placeBid_accepted [OF check_storeB] fst_commit storeB_facts
      bid111_def)

lemma storeC_facts:
  "bids storeC = Some [bid105, bid111]"
  "bids_of storeC ''A'' = [bid105, bid111]"
  by (simp_all add: storeC_def placeBid_accepted [OF check_storeB] bids_commit storeB_facts
      bid111_def bids_of_def bid105_def)

lemma find_storeC:
  "find_auction storeC ''A'' = Some (auctionA\<lparr>current_bid := Some 111, bid_count := 2, updated_at := 600\<rparr>)"
  by (simp add: storeC_def placeBid_accepted [OF check_storeB] find_commit storeB_facts
      auctionB_def auctionA_fields)

lemma storeR_facts:
  "find_auction storeR ''A'' = Some (auctionB\<lparr>reserve_price := Some 150\<rparr>)"
  "bids_of storeR ''A'' = [bid105]"
  "highest (bids_of storeR ''A'') = Some bid105"
  by (simp_all add: storeR_def find_update_auction storeB_facts bids_of_def bid105_def)

lemma reachable_storeA: "reachable storeA"
proof -
  have "reachable store0" using reach_init [of True] by (simp add: store0_def)
  from reach_create [OF this] createListing_storeA show ?thesis by metis
qed

lemma reachable_storeC: "reachable storeC"
proof -
  have "reachable storeB" unfolding storeB_def by (rule reach_bid [OF reachable_storeA])
  then show ?thesis unfolding storeC_def by (rule reach_bid)
qed

lemma reachable_storeN: "reachable storeN"
proof -
  have 0: "reachable \<lparr>auctions = [], bids = None, listings = []\<rparr>"
    using reach_init [of False] by simp
  have "snd (createListing \<lparr>auctions = [], bids = None, listings = []\<rparr>
      \<lparr>ld_seller_id = ''seller'', ld_price_amount = 100,
       ld_listing_type = AUCTION, ld_auction_end = Some 1000\<rparr> ''L'' ''A'' 0) = storeA_notable"
    by (simp add: createListing_def storeA_notable_def storeA_def auctionA_def listingL_def Let_def)
  with reach_create [OF 0] have "reachable storeA_notable" by metis
  then show ?thesis unfolding storeN_def by (rule reach_bid)
qed

subsection \<open>The listings module\<close>

text \<open>
  The checks of \<^verbatim>\<open>placeBid\<close> of the listings module differ from those of the auctions
  module: there is no check of a status, the seller is checked before the end of the
  auction, and any amount above the current price passes, with no minimum increment.
\<close>

lemma listings_placeBid_any_raise:
  assumes "map_of (listings s) listingId = Some l" and "listing_kind l = AUCTION"
    and "seller_id l \<noteq> userId"
    and "\<not> (case listing_auction_end l of None \<Rightarrow> False | Some e \<Rightarrow> e < now)"
  shows "(\<exists>p. listings_placeBid_check s listingId userId amount highestBid now = Inr p)
     \<longleftrightarrow> (case highestBid of None \<Rightarrow> price_amount l
           | Some h \<Rightarrow> if h = 0 then price_amount l else h) < amount"
  using assms by (auto simp: listings_placeBid_check_def Let_def)

lemma listings_placeBid_seller_first:
  assumes "map_of (listings s) listingId = Some l" and "listing_kind l = AUCTION"
    and "seller_id l = userId"
  shows "listings_placeBid_check s listingId userId amount highestBid now = Inl OwnListing"
  using assms by (simp add: listings_placeBid_check_def)

lemma listings_placeBid_small_raise:
  "listings_placeBid_check storeA ''L'' ''bob'' (201 / 2) None 500 = Inr 100"
  by (simp add: listings_placeBid_check_def storeA_def listingL_def)

lemma closeExpiredAuctions_auctions:
  "auctions (closeExpiredAuctions s now) = auctions s \<and> bids (closeExpiredAuctions s now) = bids s"
proof -
  have "auctions (fold (\<lambda>listingId s'. update_listing s' listingId f) ks s) = auctions s
   \<and> bids (fold (\<lambda>listingId s'. update_listing s' listingId f) ks s) = bids s" for ks f
    by (induction ks arbitrary: s) (simp_all add: update_listing_def)
  then show ?thesis by (simp add: closeExpiredAuctions_def)
qed

section \<open>Bids on one auction, one after another and interleaved\<close>

text \<open>
  Claim C1, as the service has it.  \<^verbatim>\<open>placeBid\<close> has no conditional update and no retry: its
  \<^verbatim>\<open>try\<close> block writes \<open>current_bid := bidAmount\<close> and \<open>bid_count := snapshot + 1\<close> whatever
  the stored row holds by then.  When two invocations on one auction run one after the
  other and both are accepted (with a positive first amount), the second was checked
  against the amount of the first, both rows are in \<^verbatim>\<open>bids\<close>, the current bid is the second
  amount and the count has grown by two: no accepted bid is lost.
\<close>

theorem placeBid_sequential_pair:
  assumes "placeBid s aid bidder1 amount1 cur1 now1 id1 = (Inr b1, s1)"
    and "placeBid s1 aid bidder2 amount2 cur2 now2 id2 = (Inr b2, s2)"
    and "0 < amount1"
  shows "(\<exists>bs a. bids s = Some bs \<and> find_auction s aid = Some a
            \<and> bids s2 = Some (bs @ [b1, b2])
            \<and> find_auction s2 aid =
                Some (a\<lparr>current_bid := Some amount2, bid_count := bid_count a + 2,
                        updated_at := now2\<rparr>))
    \<and> bid_amount b1 = amount1 \<and> bid_amount b2 = amount2
    \<and> amount1 + minIncrement amount1 \<le> amount2
    \<and> (\<forall>st snap bidder amount cur now bidId.
          find_auction (snd (placeBid_commit st snap aid bidder amount cur now bidId)) aid =
            map_option (\<lambda>r. r\<lparr>current_bid := Some amount, bid_count := bid_count snap + 1,
                                updated_at := now\<rparr>) (find_auction st aid))"
proof -
  from placeBid_Inr [OF assms(1)] obtain bs a where
    c1: "placeBid_check s aid bidder1 amount1 now1 = Inr a" and bs: "bids s = Some bs"
    and b1: "bid_amount b1 = amount1" and bs1: "bids s1 = Some (bs @ [b1])"
    and f1: "find_auction s1 aid = Some (a\<lparr>current_bid := Some amount1,
          bid_count := bid_count a + 1, updated_at := now1\<rparr>)"
    by auto
  from placeBid_Inr [OF assms(2)] obtain bs' a' where
    c2: "placeBid_check s1 aid bidder2 amount2 now2 = Inr a'" and bs': "bids s1 = Some bs'"
    and b2: "bid_amount b2 = amount2" and bs2: "bids s2 = Some (bs' @ [b2])"
    and f2: "find_auction s2 aid = Some (a'\<lparr>current_bid := Some amount2,
          bid_count := bid_count a' + 1, updated_at := now2\<rparr>)"
    by auto
  from c1 have fa: "find_auction s aid = Some a" using placeBid_check_Inr by blast
  from c2 have fa': "find_auction s1 aid = Some a'"
    and inc: "effective_bid a' + minIncrement (effective_bid a') \<le> amount2"
    using placeBid_check_Inr by blast+
  from fa' f1 have a': "a' = a\<lparr>current_bid := Some amount1, bid_count := bid_count a + 1,
      updated_at := now1\<rparr>" by simp
  have e: "effective_bid a' = amount1" unfolding a' using assms(3) by (rule effective_after_bid)
  have "bids s2 = Some (bs @ [b1, b2])" using bs1 bs' bs2 by simp
  moreover have "find_auction s2 aid = Some (a\<lparr>current_bid := Some amount2,
      bid_count := bid_count a + 2, updated_at := now2\<rparr>)"
    using f2 by (simp add: a')
  moreover have "amount1 + minIncrement amount1 \<le> amount2" using inc by (simp add: e)
  ultimately show ?thesis using bs fa b1 b2 by (simp add: find_commit)
qed

theorem placeBid_sequential_pair_witness:
  "placeBid storeA ''A'' ''bob'' 105 ''USD'' 500 ''b1'' = (Inr bid105, storeB)
   \<and> placeBid storeB ''A'' ''carol'' 111 ''USD'' 600 ''b2'' = (Inr bid111, storeC)
   \<and> (0 :: money) < 105
   \<and> bids storeC = Some [bid105, bid111]
   \<and> find_auction storeC ''A'' =
        Some (auctionA\<lparr>current_bid := Some 111, bid_count := 2, updated_at := 600\<rparr>)"
proof -
  have p: "(0 :: money) < 105" by simp
  from placeBid_sequential_pair [OF placeBid_storeA_105 placeBid_storeB_111 p]
  have "bids storeC = Some [bid105, bid111] \<and> find_auction storeC ''A'' =
        Some (auctionA\<lparr>current_bid := Some 111, bid_count := 2, updated_at := 600\<rparr>)"
    by (auto simp: bids_storeA find_storeA auctionA_fields)
  with placeBid_storeA_105 placeBid_storeB_111 show ?thesis by simp
qed

text \<open>
  Two invocations that both read the auction before either writes: the bids of 115 and 110
  are both checked against the current bid 100 and both accepted.  Afterwards \<^verbatim>\<open>bids\<close>
  holds two rows, while the auction shows a count of 1 and a current bid of 110.
\<close>

theorem placeBid_race_counterexample:
  "placeBid_check storeA ''A'' ''bob'' 115 500 = Inr auctionA
   \<and> placeBid_check storeA ''A'' ''carol'' 110 500 = Inr auctionA
   \<and> current_bid auctionA = Some 100 \<and> bid_count auctionA = 0
   \<and> placeBid_commit storeA auctionA ''A'' ''bob'' 115 ''USD'' 500 ''b1'' = (Inr bidBob, race1)
   \<and> placeBid_commit race1 auctionA ''A'' ''carol'' 110 ''USD'' 501 ''b2'' = (Inr bidCarol, race2)
   \<and> bids race2 = Some [bidBob, bidCarol]
   \<and> find_auction race2 ''A'' =
        Some (auctionA\<lparr>current_bid := Some 110, bid_count := 1, updated_at := 501\<rparr>)"
proof -
  have 1: "fst (placeBid_commit storeA auctionA ''A'' ''bob'' 115 ''USD'' 500 ''b1'') = Inr bidBob"
    by (simp add: fst_commit bids_storeA bidBob_def)
  have 2: "fst (placeBid_commit race1 auctionA ''A'' ''carol'' 110 ''USD'' 501 ''b2'') = Inr bidCarol"
    by (simp add: fst_commit bids_race1 bidCarol_def)
  have 3: "bids race2 = Some [bidBob, bidCarol]"
    by (simp add: race2_def bids_commit bids_race1 bidCarol_def)
  have 4: "find_auction race2 ''A'' =
        Some (auctionA\<lparr>current_bid := Some 110, bid_count := 1, updated_at := 501\<rparr>)"
    by (simp add: race2_def find_commit find_race1 auctionA_fields)
  from 1 have 5: "placeBid_commit storeA auctionA ''A'' ''bob'' 115 ''USD'' 500 ''b1'' = (Inr bidBob, race1)"
    by (simp add: race1_def prod_eq_iff)
  from 2 have 6: "placeBid_commit race1 auctionA ''A'' ''carol'' 110 ''USD'' 501 ''b2'' = (Inr bidCarol, race2)"
    by (simp add: race2_def prod_eq_iff)
  from 3 4 5 6 show ?thesis by (simp add: check_storeA auctionA_fields)
qed

section \<open>The two writes of a bid\<close>

text \<open>
  Claim C2, as the service has it.  A bid that fails a check changes nothing.  When
  \<^verbatim>\<open>placeBid\<close> returns a bid, the row of that bid has been appended to \<^verbatim>\<open>bids\<close> and the
  auction shows the amount as its current bid and a count one higher than before.  When
  the row cannot be inserted because there is no \<^verbatim>\<open>bids\<close> table, the auction is updated all
  the same ("updating auction only"): the count grows for a bid that has no row.
\<close>

theorem placeBid_outcomes:
  "(\<forall>e. placeBid_check s aid bidder amount now = Inl e \<longrightarrow>
        placeBid s aid bidder amount cur now bidId = (Inl e, s))
   \<and> (\<forall>b s'. placeBid s aid bidder amount cur now bidId = (Inr b, s') \<longrightarrow>
        (\<exists>bs a. bids s = Some bs \<and> find_auction s aid = Some a
           \<and> bids s' = Some (bs @ [b])
           \<and> bid_id b = bidId \<and> auction_id b = aid \<and> bidder_id b = bidder
           \<and> bid_amount b = amount \<and> \<not> is_winning b
           \<and> find_auction s' aid =
               Some (a\<lparr>current_bid := Some amount, bid_count := bid_count a + 1,
                       updated_at := now\<rparr>)))
   \<and> (\<forall>a. placeBid_check s aid bidder amount now = Inr a \<and> bids s = None \<longrightarrow>
        bids (snd (placeBid s aid bidder amount cur now bidId)) = None
        \<and> find_auction (snd (placeBid s aid bidder amount cur now bidId)) aid =
               Some (a\<lparr>current_bid := Some amount, bid_count := bid_count a + 1,
                       updated_at := now\<rparr>))"
proof (intro conjI allI impI)
  fix e assume "placeBid_check s aid bidder amount now = Inl e"
  then show "placeBid s aid bidder amount cur now bidId = (Inl e, s)" by (rule placeBid_rejected)
next
  fix b s' assume "placeBid s aid bidder amount cur now bidId = (Inr b, s')"
  from placeBid_Inr [OF this] placeBid_check_Inr
  show "\<exists>bs a. bids s = Some bs \<and> find_auction s aid = Some a
           \<and> bids s' = Some (bs @ [b])
           \<and> bid_id b = bidId \<and> auction_id b = aid \<and> bidder_id b = bidder
           \<and> bid_amount b = amount \<and> \<not> is_winning b
           \<and> find_auction s' aid =
               Some (a\<lparr>current_bid := Some amount, bid_count := bid_count a + 1,
                       updated_at := now\<rparr>)"
    by fastforce
next
  fix a assume a: "placeBid_check s aid bidder amount now = Inr a \<and> bids s = None"
  then show "bids (snd (placeBid s aid bidder amount cur now bidId)) = None"
    by (simp add: placeBid_def bids_commit)
next
  fix a assume a: "placeBid_check s aid bidder amount now = Inr a \<and> bids s = None"
  then have "find_auction s aid = Some a" using placeBid_check_Inr by blast
  with a show "find_auction (snd (placeBid s aid bidder amount cur now bidId)) aid =
               Some (a\<lparr>current_bid := Some amount, bid_count := bid_count a + 1,
                       updated_at := now\<rparr>)"
    by (simp add: placeBid_def find_commit)
qed

theorem placeBid_outcomes_witness:
  "placeBid storeA ''A'' ''bob'' 105 ''USD'' 500 ''b1'' =
     (Inr \<lparr>bid_id = ''b1'', auction_id = ''A'', bidder_id = ''bob'', bid_amount = 105,
           bid_currency = ''USD'', bid_time = 500, is_winning = False\<rparr>,
      \<lparr>auctions = [(''A'', auctionA\<lparr>current_bid := Some 105, bid_count := 1, updated_at := 500\<rparr>)],
       bids = Some [\<lparr>bid_id = ''b1'', auction_id = ''A'', bidder_id = ''bob'', bid_amount = 105,
           bid_currency = ''USD'', bid_time = 500, is_winning = False\<rparr>],
       listings = [(''L'', listingL)]\<rparr>)
   \<and> find_auction (snd (placeBid storeA ''A'' ''bob'' 105 ''USD'' 500 ''b1'')) ''A'' =
       Some (auctionA\<lparr>current_bid := Some 105, bid_count := 1, updated_at := 500\<rparr>)
   \<and> placeBid_check storeA ''A'' ''bob'' 60 500 = Inl (BidNotHigher 10000)
   \<and> placeBid storeA ''A'' ''bob'' 60 ''USD'' 500 ''b1'' = (Inl (BidNotHigher 10000), storeA)
   \<and> placeBid_check storeA_notable ''A'' ''bob'' 105 500 = Inr auctionA
   \<and> bids storeA_notable = None
   \<and> find_auction (snd (placeBid storeA_notable ''A'' ''bob'' 105 ''USD'' 500 ''b1'')) ''A'' =
       Some (auctionA\<lparr>current_bid := Some 105, bid_count := 1, updated_at := 500\<rparr>)"
proof -
  have c1: "placeBid_check storeA ''A'' ''bob'' 60 500 = Inl (BidNotHigher 10000)"
    by (simp add: placeBid_check_def find_storeA auctionA_fields seller_storeA effective_auctionA
        toFixed2_examples Let_def)
  note c2 = check_storeA_notable
  have n: "bids storeA_notable = None" by (simp add: storeA_notable_def)
  have p: "placeBid storeA ''A'' ''bob'' 105 ''USD'' 500 ''b1'' =
     (Inr \<lparr>bid_id = ''b1'', auction_id = ''A'', bidder_id = ''bob'', bid_amount = 105,
           bid_currency = ''USD'', bid_time = 500, is_winning = False\<rparr>,
      \<lparr>auctions = [(''A'', auctionA\<lparr>current_bid := Some 105, bid_count := 1, updated_at := 500\<rparr>)],
       bids = Some [\<lparr>bid_id = ''b1'', auction_id = ''A'', bidder_id = ''bob'', bid_amount = 105,
           bid_currency = ''USD'', bid_time = 500, is_winning = False\<rparr>],
       listings = [(''L'', listingL)]\<rparr>)"
    by (simp add: placeBid_def placeBid_check_def find_storeA auctionA_fields seller_storeA
        effective_auctionA Let_def)
      (simp add: placeBid_commit_def insert_bid_def update_auction_def storeA_def auctionA_fields)
  note th = placeBid_outcomes [of storeA "''A''" "''bob''" _ 500 "''USD''" "''b1''"]
  have 1: "placeBid storeA ''A'' ''bob'' 60 ''USD'' 500 ''b1'' = (Inl (BidNotHigher 10000), storeA)"
    using th [of 60] c1 by blast
  have 2: "find_auction (snd (placeBid storeA ''A'' ''bob'' 105 ''USD'' 500 ''b1'')) ''A'' =
       Some (auctionA\<lparr>current_bid := Some 105, bid_count := 1, updated_at := 500\<rparr>)"
    using th [of 105] p find_storeA by (auto simp: auctionA_fields)
  have 3: "find_auction (snd (placeBid storeA_notable ''A'' ''bob'' 105 ''USD'' 500 ''b1'')) ''A'' =
       Some (auctionA\<lparr>current_bid := Some 105, bid_count := 1, updated_at := 500\<rparr>)"
    using placeBid_outcomes [of storeA_notable "''A''" "''bob''" 105 500 "''USD''" "''b1''"] c2 n
    by (auto simp: auctionA_fields)
  from p c1 c2 n 1 2 3 show ?thesis by simp
qed

text \<open>
  Without a \<^verbatim>\<open>bids\<close> table the bid of 105 ends in the error "Failed to place bid", no row
  is stored, and yet the count of the auction goes from 0 to 1 and its current bid to 105.
\<close>

theorem placeBid_missing_table_counterexample:
  "bids storeA_notable = None
   \<and> fst (placeBid storeA_notable ''A'' ''bob'' 105 ''USD'' 500 ''b1'') = Inl FailedToPlaceBid
   \<and> bids (snd (placeBid storeA_notable ''A'' ''bob'' 105 ''USD'' 500 ''b1'')) = None
   \<and> map_option bid_count (find_auction storeA_notable ''A'') = Some 0
   \<and> map_option bid_count
        (find_auction (snd (placeBid storeA_notable ''A'' ''bob'' 105 ''USD'' 500 ''b1'')) ''A'') = Some 1
   \<and> map_option current_bid
        (find_auction (snd (placeBid storeA_notable ''A'' ''bob'' 105 ''USD'' 500 ''b1'')) ''A'') = Some (Some 105)"
proof -
  note c2 = check_storeA_notable
  have n: "bids storeA_notable = None" by (simp add: storeA_notable_def)
  note f = find_storeA_notable
  show ?thesis
    by (simp add: placeBid_def c2 n f fst_commit bids_commit find_commit auctionA_fields)
qed

section \<open>The minimum increment\<close>




section \<open>The current bid in every reachable store\<close>

text \<open>
  Claim C4, as the service has it.  In every store that the operations produce one after
  another, every auction has a current bid that is at least its starting price, a count
  that is not negative, and with a count of zero its current bid is its starting price.
  When the \<^verbatim>\<open>bids\<close> table exists and the starting price is not negative, the current bid is
  moreover the amount of the highest bid of the auction, or the starting price when it has
  no bid, no bid of the auction exceeds it, and the count is the number of its bids.
\<close>

theorem reachable_current_bid:
  assumes "reachable s" and "find_auction s k = Some a"
  shows "(\<exists>c. current_bid a = Some c \<and> starting_price a \<le> c)
    \<and> 0 \<le> bid_count a
    \<and> (bid_count a = 0 \<longrightarrow> current_bid a = Some (starting_price a))
    \<and> (bids s \<noteq> None \<and> 0 \<le> starting_price a \<longrightarrow>
          current_bid a = Some (case highest (bids_of s k) of
                                  None \<Rightarrow> starting_price a
                                | Some h \<Rightarrow> bid_amount h)
        \<and> (\<exists>c. current_bid a = Some c \<and> (\<forall>b \<in> set (bids_of s k). bid_amount b \<le> c))
        \<and> bid_count a = int (length (bids_of s k)))"
proof -
  from assms(1) have c: "consistent (money_view s) (bid_view s)" by (rule reachable_consistent)
  from assms(2) have row: "(k, starting_price a, current_bid a, bid_count a) \<in> set (money_view s)"
    by (rule find_money_view)
  from c row obtain c0 where c0: "current_bid a = Some c0" "starting_price a \<le> c0"
    "0 \<le> bid_count a" "bid_count a = 0 \<longrightarrow> c0 = starting_price a"
    by (fastforce simp: consistent_def)
  have tbl: "bids s \<noteq> None \<and> 0 \<le> starting_price a \<longrightarrow>
          current_bid a = Some (case highest (bids_of s k) of
                                  None \<Rightarrow> starting_price a
                                | Some h \<Rightarrow> bid_amount h)
        \<and> (\<exists>c. current_bid a = Some c \<and> (\<forall>b \<in> set (bids_of s k). bid_amount b \<le> c))
        \<and> bid_count a = int (length (bids_of s k))"
  proof
    assume h: "bids s \<noteq> None \<and> 0 \<le> starting_price a"
    then obtain bs where bs: "bids s = Some bs" by auto
    then have bv: "bid_view s = Some (map (\<lambda>b. (auction_id b, bid_amount b)) bs)"
      by (simp add: bid_view_def)
    have am: "amounts_of k (map (\<lambda>b. (auction_id b, bid_amount b)) bs) = map bid_amount (bids_of s k)"
      by (simp add: amounts_of_bids bids_of_def bs)
    from c bv row h have
      "current_bid a = Some (top_bid (starting_price a)
          (amounts_of k (map (\<lambda>b. (auction_id b, bid_amount b)) bs)))
       \<and> bid_count a = int (length (amounts_of k (map (\<lambda>b. (auction_id b, bid_amount b)) bs)))"
      unfolding consistent_def by fast
    then have 1: "current_bid a = Some (case highest (bids_of s k) of
                                  None \<Rightarrow> starting_price a
                                | Some h \<Rightarrow> bid_amount h)"
      and 2: "bid_count a = int (length (bids_of s k))"
      by (simp_all add: am top_bid_highest)
    have "\<forall>b \<in> set (bids_of s k). bid_amount b \<le> c0"
    proof
      fix b assume b: "b \<in> set (bids_of s k)"
      then obtain g where g: "highest (bids_of s k) = Some g"
        by (cases "highest (bids_of s k)") (auto simp: highest_None)
      with highest_max [OF g] b 1 c0(1) show "bid_amount b \<le> c0" by simp
    qed
    with c0(1) have 3: "\<exists>c. current_bid a = Some c \<and> (\<forall>b \<in> set (bids_of s k). bid_amount b \<le> c)"
      by simp
    from 1 2 3 show "current_bid a = Some (case highest (bids_of s k) of
                                  None \<Rightarrow> starting_price a
                                | Some h \<Rightarrow> bid_amount h)
        \<and> (\<exists>c. current_bid a = Some c \<and> (\<forall>b \<in> set (bids_of s k). bid_amount b \<le> c))
        \<and> bid_count a = int (length (bids_of s k))" by blast
  qed
  from c0 tbl show ?thesis by blast
qed

theorem reachable_current_bid_witness:
  "reachable storeC
   \<and> find_auction storeC ''A'' =
       Some (auctionA\<lparr>current_bid := Some 111, bid_count := 2, updated_at := 600\<rparr>)
   \<and> bids storeC \<noteq> None \<and> (0 :: money) \<le> 100
   \<and> map bid_amount (bids_of storeC ''A'') = [105, 111]
   \<and> (case highest (bids_of storeC ''A'') of None \<Rightarrow> 100 | Some h \<Rightarrow> bid_amount h) = 111
   \<and> int (length (bids_of storeC ''A'')) = 2"
proof -
  have t: "bids storeC \<noteq> None" by (simp add: storeC_facts)
  have m: "map bid_amount (bids_of storeC ''A'') = [105, 111]"
    by (simp add: storeC_facts bid105_def bid111_def)
  from reachable_current_bid [OF reachable_storeC find_storeC] t
  have "(case highest (bids_of storeC ''A'') of None \<Rightarrow> 100 | Some h \<Rightarrow> bid_amount h) = 111
      \<and> int (length (bids_of storeC ''A'')) = 2"
    by (auto simp: auctionA_fields split: option.splits)
  with reachable_storeC find_storeC t m show ?thesis by simp
qed

text \<open>
  Without a \<^verbatim>\<open>bids\<close> table the only bid ever placed ends in "Failed to place bid" and no
  bid is stored; the store so reached shows a current bid of 105 for a starting price of
  100.
\<close>

theorem reachable_missing_table_counterexample:
  "reachable storeN
   \<and> fst (placeBid storeA_notable ''A'' ''bob'' 105 ''USD'' 500 ''b1'') = Inl FailedToPlaceBid
   \<and> bids storeN = None \<and> bids_of storeN ''A'' = []
   \<and> map_option starting_price (find_auction storeN ''A'') = Some 100
   \<and> map_option current_bid (find_auction storeN ''A'') = Some (Some 105)"
proof -
  have n: "bids storeA_notable = None" by (simp add: storeA_notable_def)
  have b: "bids storeN = None"
    by (simp add: storeN_def placeBid_accepted [OF check_storeA_notable] bids_commit n)
  then have e: "bids_of storeN ''A'' = []" by (simp add: bids_of_def)
  have f: "find_auction storeN ''A'' =
      Some (auctionA\<lparr>current_bid := Some 105, bid_count := 1, updated_at := 500\<rparr>)"
    by (simp add: storeN_def placeBid_accepted [OF check_storeA_notable] find_commit
        find_storeA_notable auctionA_fields)
  have r: "fst (placeBid storeA_notable ''A'' ''bob'' 105 ''USD'' 500 ''b1'') = Inl FailedToPlaceBid"
    by (simp add: placeBid_accepted [OF check_storeA_notable] fst_commit n)
  from reachable_storeN b e f r show ?thesis by (simp add: auctionA_fields)
qed

section \<open>Closing an auction\<close>

text \<open>
  Claim C5, as the service has it.  \<^verbatim>\<open>endAuction\<close> never reads the reserve price.  On an
  existing auction with at least one bid it sets the status to ended, makes the bidder of
  a highest bid the winning bidder and marks that bid as winning, whatever the reserve
  price is; with no bid it sets the status to ended and leaves the winning bidder and the
  bids as they were.
\<close>

theorem endAuction_winner:
  assumes "find_auction s aid = Some a"
  shows "(\<forall>h. highest (bids_of s aid) = Some h \<longrightarrow>
            h \<in> set (bids_of s aid)
          \<and> (\<forall>b \<in> set (bids_of s aid). bid_amount b \<le> bid_amount h)
          \<and> fst (endAuction s aid now) =
              Inr (a\<lparr>status := Ended, updated_at := now, winning_bidder_id := Some (bidder_id h)\<rparr>)
          \<and> find_auction (snd (endAuction s aid now)) aid =
              Some (a\<lparr>status := Ended, updated_at := now, winning_bidder_id := Some (bidder_id h)\<rparr>)
          \<and> h\<lparr>is_winning := True\<rparr> \<in> set (bids_of (snd (endAuction s aid now)) aid))
    \<and> (bids_of s aid \<noteq> [] \<longrightarrow> (\<exists>h. highest (bids_of s aid) = Some h))
    \<and> (bids_of s aid = [] \<longrightarrow>
          fst (endAuction s aid now) = Inr (a\<lparr>status := Ended, updated_at := now\<rparr>)
          \<and> find_auction (snd (endAuction s aid now)) aid = Some (a\<lparr>status := Ended, updated_at := now\<rparr>)
          \<and> bids (snd (endAuction s aid now)) = bids s)"
proof (intro conjI allI impI ballI)
  fix h assume h: "highest (bids_of s aid) = Some h"
  then show m: "h \<in> set (bids_of s aid)" by (rule highest_mem)
  show f: "find_auction (snd (endAuction s aid now)) aid =
      Some (a\<lparr>status := Ended, updated_at := now, winning_bidder_id := Some (bidder_id h)\<rparr>)"
    using assms h by (simp add: find_endAuction)
  then show "fst (endAuction s aid now) =
      Inr (a\<lparr>status := Ended, updated_at := now, winning_bidder_id := Some (bidder_id h)\<rparr>)"
    by (simp add: fst_endAuction)
  show "h\<lparr>is_winning := True\<rparr> \<in> set (bids_of (snd (endAuction s aid now)) aid)"
    using h m by (force simp: bids_of_endAuction)
next
  fix h b assume "highest (bids_of s aid) = Some h" "b \<in> set (bids_of s aid)"
  then show "bid_amount b \<le> bid_amount h" using highest_max by blast
next
  assume "bids_of s aid \<noteq> []"
  then show "\<exists>h. highest (bids_of s aid) = Some h"
    using highest_None [of "bids_of s aid"] by (cases "highest (bids_of s aid)") auto
next
  assume e: "bids_of s aid = []"
  show f: "find_auction (snd (endAuction s aid now)) aid = Some (a\<lparr>status := Ended, updated_at := now\<rparr>)"
    using assms e by (simp add: find_endAuction)
  then show "fst (endAuction s aid now) = Inr (a\<lparr>status := Ended, updated_at := now\<rparr>)"
    by (simp add: fst_endAuction)
  show "bids (snd (endAuction s aid now)) = bids s"
    using e by (simp add: bids_endAuction)
qed

theorem endAuction_winner_witness:
  "find_auction storeR ''A'' = Some (auctionB\<lparr>reserve_price := Some 150\<rparr>)
   \<and> highest (bids_of storeR ''A'') = Some bid105
   \<and> fst (endAuction storeR ''A'' 2000) =
        Inr (auctionB\<lparr>reserve_price := Some 150, status := Ended, updated_at := 2000,
                      winning_bidder_id := Some ''bob''\<rparr>)
   \<and> bid105\<lparr>is_winning := True\<rparr> \<in> set (bids_of (snd (endAuction storeR ''A'' 2000)) ''A'')
   \<and> find_auction storeA ''A'' = Some auctionA \<and> bids_of storeA ''A'' = []
   \<and> fst (endAuction storeA ''A'' 2000) = Inr (auctionA\<lparr>status := Ended, updated_at := 2000\<rparr>)"
proof -
  have e: "bids_of storeA ''A'' = []" by (simp add: bids_of_def bids_storeA)
  from endAuction_winner [OF storeR_facts(1), of 2000] storeR_facts(3)
  have 1: "fst (endAuction storeR ''A'' 2000) =
        Inr (auctionB\<lparr>reserve_price := Some 150, status := Ended, updated_at := 2000,
                      winning_bidder_id := Some ''bob''\<rparr>)
     \<and> bid105\<lparr>is_winning := True\<rparr> \<in> set (bids_of (snd (endAuction storeR ''A'' 2000)) ''A'')"
    by (simp add: bid105_def)
  from endAuction_winner [OF find_storeA, of 2000] e
  have 2: "fst (endAuction storeA ''A'' 2000) = Inr (auctionA\<lparr>status := Ended, updated_at := 2000\<rparr>)"
    by simp
  from 1 2 e storeR_facts find_storeA show ?thesis by simp
qed

text \<open>
  A reserve price of 150 above the only bid of 105: the auction is ended with the bidder of
  105 as the winning bidder, and that bid is marked as winning.
\<close>

theorem endAuction_reserve_counterexample:
  "map_option reserve_price (find_auction storeR ''A'') = Some (Some 150)
   \<and> map bid_amount (bids_of storeR ''A'') = [105]
   \<and> map_option status (find_auction (snd (endAuction storeR ''A'' 2000)) ''A'') = Some Ended
   \<and> map_option winning_bidder_id (find_auction (snd (endAuction storeR ''A'' 2000)) ''A'')
        = Some (Some ''bob'')
   \<and> map is_winning (bids_of (snd (endAuction storeR ''A'' 2000)) ''A'') = [True]"
  by (simp add: find_endAuction bids_of_endAuction storeR_facts) (simp add: bid105_def)

section \<open>Closing an auction twice\<close>




section \<open>Sweeping expired auctions\<close>

text \<open>
  Claim C7, as the service has it.  An active auction whose end lies before \<open>now\<close> and that
  has no bid is set to ended (not to cancelled) by \<^verbatim>\<open>checkAndEndExpiredAuctions\<close>; only
  \<open>status\<close> and \<open>updated_at\<close> of its row change, so its winning bidder stays as it was,
  and it still has no bid, hence none that is marked as winning.
\<close>

theorem sweep_zero_bids:
  assumes "find_auction s aid = Some a" and "status a = Active" and "auction_end a < now"
    and "bids_of s aid = []"
  shows "find_auction (checkAndEndExpiredAuctions s now) aid =
           Some (a\<lparr>status := Ended, updated_at := now\<rparr>)
    \<and> winning_bidder_id (a\<lparr>status := Ended, updated_at := now\<rparr>) = winning_bidder_id a
    \<and> bids_of (checkAndEndExpiredAuctions s now) aid = []"
  using sweep_fold [OF assms(1,4), of now "expired_active s now"]
    expired_active_mem [OF assms(1-3)]
  by (simp add: checkAndEndExpiredAuctions_def)

theorem sweep_zero_bids_witness:
  "find_auction storeA ''A'' = Some auctionA \<and> status auctionA = Active
   \<and> auction_end auctionA < 2000 \<and> bids_of storeA ''A'' = []
   \<and> find_auction (checkAndEndExpiredAuctions storeA 2000) ''A'' =
           Some (auctionA\<lparr>status := Ended, updated_at := 2000\<rparr>)
   \<and> winning_bidder_id auctionA = None
   \<and> bids_of (checkAndEndExpiredAuctions storeA 2000) ''A'' = []"
proof -
  have e: "bids_of storeA ''A'' = []" by (simp add: bids_of_def bids_storeA)
  have a: "status auctionA = Active" "auction_end auctionA < 2000" "winning_bidder_id auctionA = None"
    by (simp_all add: auctionA_def)
  from sweep_zero_bids [OF find_storeA a(1,2) e] a e find_storeA show ?thesis by simp
qed

text \<open>
  The auction of the scenario, without a bid and past its end at instant 2000, is ended by
  the sweep: its status is \<open>Ended\<close>, not \<open>Cancelled\<close>.
\<close>

theorem sweep_zero_bids_counterexample:
  "bids_of storeA ''A'' = [] \<and> auction_end auctionA < 2000
   \<and> map_option status (find_auction storeA ''A'') = Some Active
   \<and> map_option status (find_auction (checkAndEndExpiredAuctions storeA 2000) ''A'') = Some Ended"
proof -
  have e: "bids_of storeA ''A'' = []" by (simp add: bids_of_def bids_storeA)
  have x: "expired_active storeA 2000 = [''A'']"
    by (simp add: expired_active_def storeA_def auctionA_fields)
  show ?thesis
    by (simp add: checkAndEndExpiredAuctions_def x find_endAuction find_storeA e auctionA_fields)
qed

section \<open>Bids of the seller\<close>

text \<open>
  Claim C8, as the service has it.  A bid of the seller of the auction's listing is rejected
  whatever the amount, and the store stays as it is.  The status and the end of the auction
  are checked first: the rejection is "You cannot bid on your own auction" on an active
  auction that is not past its end, "Auction is not active" on an auction that is not
  active, and "Auction has ended" on an active auction past its end.
\<close>

theorem placeBid_seller_rejected:
  assumes "find_auction s aid = Some a" and "seller_is s a bidder"
  shows "(\<exists>e. placeBid s aid bidder amount cur now bidId = (Inl e, s))
    \<and> (status a \<noteq> Active \<longrightarrow>
          placeBid s aid bidder amount cur now bidId = (Inl AuctionNotActive, s))
    \<and> (status a = Active \<and> auction_end a < now \<longrightarrow>
          placeBid s aid bidder amount cur now bidId = (Inl AuctionExpired, s))
    \<and> (status a = Active \<and> \<not> auction_end a < now \<longrightarrow>
          placeBid s aid bidder amount cur now bidId = (Inl SelfBidNotAllowed, s))"
  using assms by (auto simp: placeBid_def placeBid_check_def seller_is_def)

theorem placeBid_seller_rejected_witness:
  "find_auction storeA ''A'' = Some auctionA \<and> seller_is storeA auctionA ''seller''
   \<and> status auctionA = Active \<and> \<not> auction_end auctionA < 500
   \<and> placeBid storeA ''A'' ''seller'' 1000000 ''USD'' 500 ''b1'' = (Inl SelfBidNotAllowed, storeA)"
proof -
  have act: "status auctionA = Active" and e: "\<not> auction_end auctionA < 500"
    by (simp_all add: auctionA_def)
  have sl: "seller_is storeA auctionA ''seller''" by (simp add: seller_storeA)
  from placeBid_seller_rejected [OF find_storeA sl, of 1000000 "''USD''" 500 "''b1''"] act e sl find_storeA
  show ?thesis by simp
qed

text \<open>
  On the ended auction the seller's bid is rejected as "Auction is not active", not as a
  bid of the seller.
\<close>

theorem placeBid_seller_on_ended_counterexample:
  "find_auction storeA_ended ''A'' = Some (auctionA\<lparr>status := Ended, updated_at := 2000\<rparr>)
   \<and> seller_is storeA_ended (auctionA\<lparr>status := Ended, updated_at := 2000\<rparr>) ''seller''
   \<and> fst (placeBid storeA_ended ''A'' ''seller'' 1000000 ''USD'' 500 ''b1'') = Inl AuctionNotActive
   \<and> fst (placeBid storeA_ended ''A'' ''seller'' 1000000 ''USD'' 500 ''b1'') \<noteq> Inl SelfBidNotAllowed"
  by (simp add: placeBid_def placeBid_check_def find_storeA_ended seller_is_def listings_storeA_ended
      storeA_def auctionA_def listingL_def)

section \<open>The order of the checks\<close>

text \<open>
  Claim C9, as the service has it.  \<^verbatim>\<open>placeBid\<close> checks, in this order and stopping at the
  first failure: the status is active (else "Auction is not active"); the end of the auction
  is not before now, that is \<open>now \<le> auction_end\<close> (else "Auction has ended"); the bidder is
  not the seller (else "You cannot bid on your own auction"); the amount reaches the
  current bid plus the minimum increment (else one of the two messages for a low bid).  An
  input that fails several checks gets the message of the first one it fails, and the
  store stays as it is; an input that fails none passes the checks with the row it read.
\<close>

theorem placeBid_check_order:
  assumes "find_auction s aid = Some a"
  shows "(status a \<noteq> Active \<longrightarrow>
            placeBid s aid bidder amount cur now bidId = (Inl AuctionNotActive, s))
    \<and> (status a = Active \<and> auction_end a < now \<longrightarrow>
            placeBid s aid bidder amount cur now bidId = (Inl AuctionExpired, s))
    \<and> (status a = Active \<and> \<not> auction_end a < now \<and> seller_is s a bidder \<longrightarrow>
            placeBid s aid bidder amount cur now bidId = (Inl SelfBidNotAllowed, s))
    \<and> (status a = Active \<and> \<not> auction_end a < now \<and> \<not> seller_is s a bidder
         \<and> amount < effective_bid a + minIncrement (effective_bid a) \<longrightarrow>
            (\<exists>e. is_BidTooLow e \<and> placeBid s aid bidder amount cur now bidId = (Inl e, s)))
    \<and> (status a = Active \<and> \<not> auction_end a < now \<and> \<not> seller_is s a bidder
         \<and> effective_bid a + minIncrement (effective_bid a) \<le> amount \<longrightarrow>
            placeBid_check s aid bidder amount now = Inr a)"
  using assms minIncrement_ge_1 [of "effective_bid a"]
  by (auto simp: placeBid_def placeBid_check_def seller_is_def Let_def)

theorem placeBid_check_order_witness:
  "find_auction storeA ''A'' = Some auctionA \<and> status auctionA = Active
   \<and> auction_end auctionA < 2000 \<and> seller_is storeA auctionA ''seller''
   \<and> placeBid storeA ''A'' ''seller'' 60 ''USD'' 2000 ''b1'' = (Inl AuctionExpired, storeA)
   \<and> \<not> auction_end auctionA < 500
   \<and> placeBid storeA ''A'' ''seller'' 60 ''USD'' 500 ''b1'' = (Inl SelfBidNotAllowed, storeA)
   \<and> find_auction storeA_ended ''A'' = Some (auctionA\<lparr>status := Ended, updated_at := 2000\<rparr>)
   \<and> placeBid storeA_ended ''A'' ''seller'' 60 ''USD'' 2500 ''b1'' = (Inl AuctionNotActive, storeA_ended)"
proof -
  have act: "status auctionA = Active" and e: "\<not> auction_end auctionA < 500"
    and l: "auction_end auctionA < 2000"
    by (simp_all add: auctionA_def)
  have sl: "seller_is storeA auctionA ''seller''" by (simp add: seller_storeA)
  have 1: "placeBid storeA ''A'' ''seller'' 60 ''USD'' 2000 ''b1'' = (Inl AuctionExpired, storeA)"
    using placeBid_check_order [OF find_storeA, of "''seller''" 60 "''USD''" 2000 "''b1''"] act l
    by simp
  have 2: "placeBid storeA ''A'' ''seller'' 60 ''USD'' 500 ''b1'' = (Inl SelfBidNotAllowed, storeA)"
    using placeBid_check_order [OF find_storeA, of "''seller''" 60 "''USD''" 500 "''b1''"] act e sl
    by simp
  have 3: "placeBid storeA_ended ''A'' ''seller'' 60 ''USD'' 2500 ''b1'' =
      (Inl AuctionNotActive, storeA_ended)"
    using placeBid_check_order [OF find_storeA_ended, of "''seller''" 60 "''USD''" 2500 "''b1''"]
    by simp
  from 1 2 3 act e l sl find_storeA find_storeA_ended show ?thesis by simp
qed

text \<open>
  At the very instant the auction ends (\<open>now = auction_end = 1000\<close>) the condition
  \<open>now < endTime\<close> is violated, yet the seller's bid is rejected as a bid of the seller, not
  as a bid on an expired auction: the service compares \<^verbatim>\<open>auction_end < now\<close>.
\<close>

theorem placeBid_at_end_time_counterexample:
  "auction_end auctionA = 1000 \<and> seller_is storeA auctionA ''seller''
   \<and> fst (placeBid storeA ''A'' ''seller'' 200 ''USD'' 1000 ''b1'') = Inl SelfBidNotAllowed"
  by (simp add: placeBid_def placeBid_check_def find_storeA seller_storeA auctionA_fields)

section \<open>Extending an auction\<close>



end
